theory Spec2Isabelle
  imports Complex_Main
begin

chapter \<open>The programs\<close>

section \<open>Go run-time conventions\<close>

text \<open>
  A Go run-time panic ends the call that raised it; every function that indexes a slice
  or divides integers therefore returns \<open>panic + 'a\<close>, with \<open>Inl\<close> for the panic.
  The type \<open>int\<close> of Go (64 bits on the targets of the repository) is modelled by
  \<open>int\<close>; where the source increments or decrements a value that is not bounded by a
  loop guard, the wrap-around of the 64-bit representation is written out with
  \<open>int64\<close>.  Values of type \<open>float32\<close> are modelled by exact reals, and the
  operations on them are exact; the two conversions of the mel scale are also given with
  every operation rounded to \<open>float32\<close>.
\<close>

datatype panic = IndexOutOfRange | DivideByZero | TypeAssertion

definition andThen :: "panic + 'a \<Rightarrow> ('a \<Rightarrow> panic + 'b) \<Rightarrow> panic + 'b" where
  "andThen r f = (case r of Inl e \<Rightarrow> Inl e | Inr x \<Rightarrow> f x)"

definition int64 :: "int \<Rightarrow> int" where
  "int64 x = (x + 2 ^ 63) mod 2 ^ 64 - 2 ^ 63"

definition is_int64 :: "int \<Rightarrow> bool" where
  "is_int64 x = (- (2 ^ 63) \<le> x \<and> x < 2 ^ 63)"

text \<open>\<open>xs[i]\<close> read and written, on a slice: Go panics outside \<open>0 .. len(xs)-1\<close>.\<close>

definition slice_get :: "'a list \<Rightarrow> int \<Rightarrow> panic + 'a" where
  "slice_get xs i = (if 0 \<le> i \<and> i < int (length xs) then Inr (xs ! nat i) else Inl IndexOutOfRange)"

definition slice_set :: "'a list \<Rightarrow> int \<Rightarrow> 'a \<Rightarrow> panic + 'a list" where
  "slice_set xs i v =
     (if 0 \<le> i \<and> i < int (length xs) then Inr (xs[nat i := v]) else Inl IndexOutOfRange)"

text \<open>Integer division of Go: truncation towards zero, a panic on a zero divisor.\<close>

definition tdiv :: "int \<Rightarrow> int \<Rightarrow> int" where
  "tdiv a b = sgn a * sgn b * (\<bar>a\<bar> div \<bar>b\<bar>)"

definition quo :: "int \<Rightarrow> int \<Rightarrow> panic + int" where
  "quo a b = (if b = 0 then Inl DivideByZero else Inr (tdiv a b))"

text \<open>The slice expression \<open>xs[lo:hi]\<close>.\<close>

definition slice_range :: "'a list \<Rightarrow> int \<Rightarrow> int \<Rightarrow> panic + 'a list" where
  "slice_range xs lo hi =
     (if 0 \<le> lo \<and> lo \<le> hi \<and> hi \<le> int (length xs)
      then Inr (take (nat (hi - lo)) (drop (nat lo) xs)) else Inl IndexOutOfRange)"

text \<open>\<open>copy(dst, src)\<close> overwrites as many leading values as both slices have.\<close>

definition copy_slice :: "'a list \<Rightarrow> 'a list \<Rightarrow> 'a list" where
  "copy_slice dst src = take (length dst) src @ drop (length src) dst"

text \<open>
  The loop \<open>for i := a; i < n; i++ { body }\<close> over a state, stopped by the first panic
  of its body.
\<close>

function for_loop :: "int \<Rightarrow> int \<Rightarrow> (int \<Rightarrow> 's \<Rightarrow> panic + 's) \<Rightarrow> 's \<Rightarrow> panic + 's" where
  "for_loop i n body st =
     (if i < n then (case body i st of Inl e \<Rightarrow> Inl e | Inr st' \<Rightarrow> for_loop (i + 1) n body st')
      else Inr st)"
  by pat_completeness auto
termination
  by (relation "measure (\<lambda>(i, n, body, st). nat (n - i))") auto

declare for_loop.simps [simp del]

lemma andThen_cong [fundef_cong]:
  "r = r' \<Longrightarrow> (\<And>x. r' = Inr x \<Longrightarrow> f x = f' x) \<Longrightarrow> andThen r f = andThen r' f'"
  by (cases r') (simp_all add: andThen_def)

section \<open>Rounding to \<open>float32\<close>\<close>

text \<open>
  A \<open>float32\<close> has a significand of 24 bits and an exponent from -126 to 127; below
  \<open>2 ^ -126\<close> the values are spaced by \<open>2 ^ -149\<close>.  An operation on \<open>float32\<close>
  values returns the exact result rounded to the nearest \<open>float32\<close>, to the one with an
  even significand when two are as near.  \<open>float32_exponent x\<close> is the exponent of the
  binade of \<open>x\<close>, found from -126 upwards, and \<open>float32 x\<close> is \<open>x\<close> rounded on the grid
  of that binade.  There is no infinity here: from \<open>2 ^ 128\<close> on, where Go gives
  \<open>+Inf\<close>, the value is rounded on the grid of the last binade.
\<close>

definition round_even :: "real \<Rightarrow> int" where
  "round_even y =
     (let n = \<lfloor>y\<rfloor>; d = y - of_int n
      in if d < 1 / 2 then n else if 1 / 2 < d then n + 1 else if even n then n else n + 1)"

function float32_exponent_from :: "real \<Rightarrow> int \<Rightarrow> int" where
  "float32_exponent_from a e =
     (if e < 127 \<and> 2 powi (e + 1) \<le> a then float32_exponent_from a (e + 1) else e)"
  by pat_completeness auto
termination
  by (relation "measure (\<lambda>(a, e). nat (127 - e))") auto

declare float32_exponent_from.simps [simp del]

definition float32_exponent :: "real \<Rightarrow> int" where
  "float32_exponent x = float32_exponent_from \<bar>x\<bar> (- 126)"

definition float32 :: "real \<Rightarrow> real" where
  "float32 x =
     (let ulp = 2 powi (float32_exponent x - 23)
      in of_int (round_even (x / ulp)) * ulp)"

text \<open>The distance from 1 to the next \<open>float32\<close>.\<close>

definition float32_epsilon :: real where
  "float32_epsilon = 1 / 2 ^ 23"

section \<open>The FIR filter (trm/FirFilter.go)\<close>

definition Limit :: int where
  "Limit = 200"

record FirFilter =
  Ptr :: int
  NTaps :: int
  Data :: "real list"
  Coef :: "real list"

definition Increment :: "int \<Rightarrow> int \<Rightarrow> int" where
  "Increment ptr modulus =
     (let ptr = int64 (ptr + 1) in if ptr \<ge> modulus then 0 else ptr)"

definition Decrement :: "int \<Rightarrow> int \<Rightarrow> int" where
  "Decrement ptr modulus =
     (let ptr = int64 (ptr - 1) in if ptr < 0 then int64 (modulus - 1) else ptr)"

text \<open>The tap loop of \<open>Filter\<close>: \<open>for i := 0; i < ff.NTaps; i++\<close>.\<close>

function Filter_taps :: "int \<Rightarrow> real \<Rightarrow> FirFilter \<Rightarrow> panic + (real \<times> FirFilter)" where
  "Filter_taps i output ff =
     (if i < NTaps ff then
        andThen (slice_get (Data ff) (Ptr ff)) (\<lambda>d.
        andThen (slice_get (Coef ff) i) (\<lambda>c.
          Filter_taps (i + 1) (output + d * c) (ff\<lparr>Ptr := Increment (Ptr ff) (NTaps ff)\<rparr>)))
      else Inr (output, ff))"
  by pat_completeness auto
termination
  by (relation "measure (\<lambda>(i, output, ff). nat (NTaps ff - i))") auto

declare Filter_taps.simps [simp del]

definition Filter :: "FirFilter \<Rightarrow> real \<Rightarrow> bool \<Rightarrow> panic + (real \<times> FirFilter)" where
  "Filter ff input needOutput =
     (if needOutput then
        andThen (slice_set (Data ff) (Ptr ff) input) (\<lambda>d.
        andThen (Filter_taps 0 0 (ff\<lparr>Data := d\<rparr>)) (\<lambda>(output, ff).
          Inr (output, ff\<lparr>Ptr := Decrement (Ptr ff) (NTaps ff)\<rparr>)))
      else
        andThen (slice_set (Data ff) (Ptr ff) input) (\<lambda>d.
          Inr (0, ff\<lparr>Data := d, Ptr := Decrement (Ptr ff) (NTaps ff)\<rparr>)))"

text \<open>The conversion \<open>int(x)\<close> of a floating-point value: truncation towards zero.\<close>

definition trunc :: "real \<Rightarrow> int" where
  "trunc x = (if 0 \<le> x then \<lfloor>x\<rfloor> else \<lceil>x\<rceil>)"

text \<open>The remainder \<open>a % b\<close> of Go: the sign of the dividend, a panic on a zero divisor.\<close>

definition rem :: "int \<Rightarrow> int \<Rightarrow> panic + int" where
  "rem a b = (if b = 0 then Inl DivideByZero else Inr (sgn a * (\<bar>a\<bar> mod \<bar>b\<bar>)))"

text \<open>
  The search loop of \<open>RationalApproximation\<close>, \<open>for i := *order; i <= orderMaximum; i++\<close>,
  over the variables \<open>minimumError\<close>, \<open>modulus\<close> and \<open>*denominator\<close>.
\<close>

function RationalApproximation_search ::
  "real \<Rightarrow> int \<Rightarrow> int \<Rightarrow> real \<times> int \<times> int \<Rightarrow> real \<times> int \<times> int" where
  "RationalApproximation_search fractionalPart i orderMaximum (minimumError, modulus, denominator) =
     (if i \<le> orderMaximum then
        (let ps = of_int i * fractionalPart;
             ip = trunc (ps + 0.5);
             error = \<bar>(ps - of_int ip) / of_int i\<bar>
         in RationalApproximation_search fractionalPart (i + 1) orderMaximum
              (if error < minimumError then (error, ip, i)
               else (minimumError, modulus, denominator)))
      else (minimumError, modulus, denominator))"
  by pat_completeness auto
termination
  by (relation "measure (\<lambda>(f, i, m, s). nat (m + 1 - i))") auto

declare RationalApproximation_search.simps [simp del]

text \<open>
  \<open>RationalApproximation(number, order, numerator, denominator)\<close>: the three pointers
  are passed in as values and returned as \<open>(order, numerator, denominator)\<close>.
\<close>

definition RationalApproximation :: "real \<Rightarrow> int \<Rightarrow> int \<Rightarrow> int \<Rightarrow> int \<times> int \<times> int" where
  "RationalApproximation number order numerator denominator =
     (if order \<le> 0 then (- 1, 0, 0)
      else
        (let fractionalPart = \<bar>number - of_int (trunc number)\<bar>;
             orderMaximum = 2 * order;
             orderMaximum = (if orderMaximum > Limit then Limit else orderMaximum);
             (minimumError, modulus, denominator) =
               RationalApproximation_search fractionalPart order orderMaximum (1, 0, denominator);
             numerator = trunc \<bar>number\<bar> * denominator + modulus;
             numerator = (if number < 0 then numerator * (- 1) else numerator);
             order = denominator - 1
         in if numerator = denominator then (orderMaximum - 1, orderMaximum - 1, orderMaximum)
            else (order, numerator, denominator)))"

text \<open>
  The magnitude loop of \<open>MaximallyFlat\<close>, \<open>for i := 2; i <= *np; i++\<close>, over the
  local arrays \<open>a\<close> and \<open>c\<close>.
\<close>

definition MaximallyFlat_magnitude ::
  "int \<Rightarrow> int \<Rightarrow> int \<Rightarrow> int \<Rightarrow> real list \<times> real list \<Rightarrow> panic + (real list \<times> real list)" where
  "MaximallyFlat_magnitude np n nt numerator =
     for_loop 2 (np + 1) (\<lambda>i (a, c).
       andThen (slice_set c i (cos (2 * pi * of_int (i - 1) / of_int n))) (\<lambda>c.
       andThen (slice_get c i) (\<lambda>ci.
         let x = (1 - ci) / 2 in
         if numerator = nt then Inr (a, c)
         else
           andThen (for_loop 1 (nt - numerator + 1) (\<lambda>j (y, sum).
               andThen (if numerator \<noteq> 1
                        then for_loop 1 numerator (\<lambda>jj z.
                               Inr (z * (1 + of_int j / of_int jj))) y
                        else Inr y) (\<lambda>z.
                 Inr (y * x, sum + z))) (x, 1)) (\<lambda>(y, sum).
           andThen (slice_set a i (sum * ((1 - x) powr of_int numerator))) (\<lambda>a.
             Inr (a, c))))))"

text \<open>The inverse transform of \<open>MaximallyFlat\<close>, \<open>for i := 1; i <= *np; i++\<close>, into \<open>ff.Coef\<close>.\<close>

definition MaximallyFlat_idft ::
  "int \<Rightarrow> int \<Rightarrow> int \<Rightarrow> real list \<Rightarrow> real list \<Rightarrow> real list \<Rightarrow> panic + real list" where
  "MaximallyFlat_idft np n nt a c =
     for_loop 1 (np + 1) (\<lambda>i coef.
       andThen (slice_get a 1) (\<lambda>a1.
       andThen (slice_set coef i (a1 / 2)) (\<lambda>coef.
       andThen (for_loop 2 (np + 1) (\<lambda>j coef.
           andThen (rem ((i - 1) * (j - 1)) n) (\<lambda>m.
             let m = (if m > nt then n - m else m) in
             andThen (slice_get c (m + 1)) (\<lambda>cm.
             andThen (slice_get a j) (\<lambda>aj.
             andThen (slice_get coef i) (\<lambda>ci.
               slice_set coef i (ci + cm * aj)))))) coef) (\<lambda>coef.
       andThen (slice_get coef i) (\<lambda>ci.
         slice_set coef i (ci * (2 / of_int n)))))))"

text \<open>
  \<open>MaximallyFlat(beta, gamma, np, coefficients)\<close>.  The source writes the result into
  \<open>ff.Coef\<close> and never into \<open>coefficients\<close>; every path returns the integer 0, so the
  model returns \<open>*np\<close> and the filter.  The exceptions of the C++ original are comments
  in the source: each guard is a plain \<open>return 0\<close>.
\<close>

definition MaximallyFlat :: "FirFilter \<Rightarrow> real \<Rightarrow> real \<Rightarrow> panic + (int \<times> FirFilter)" where
  "MaximallyFlat ff beta gamma =
     (let np = 0 in
      if beta \<le> 0 \<or> beta \<ge> 0.5 then Inr (np, ff)
      else
        let betaMin = 2 * beta;
            betaMin = (if betaMin < 1 - 2 * beta then 2 * beta else 1 - 2 * beta)
        in
        if gamma \<le> 0 \<or> gamma \<ge> betaMin then Inr (np, ff)
        else
          let nt = trunc (1 / (4 * gamma * gamma)) in
          if nt > 160 then Inr (np, ff)
          else
            let ac = 1 + cos (2 * pi * beta) / 2;
                (nt, numerator, np) = RationalApproximation ac nt 0 np;
                n = 2 * np - 1;
                numerator = (if numerator = 0 then 1 else numerator);
                zeros = replicate (nat (Limit + 1)) 0
            in
            andThen (slice_set zeros 1 1) (\<lambda>a.
            andThen (slice_set zeros 1 1) (\<lambda>c.
            andThen (MaximallyFlat_magnitude np n nt numerator (a, c)) (\<lambda>(a, c).
            andThen (MaximallyFlat_idft np n nt a c (Coef ff)) (\<lambda>coef.
              Inr (np, ff\<lparr>Coef := coef\<rparr>))))))"

text \<open>
  \<open>Trim(cutoff, nCoefficients, coefficients)\<close>, \<open>for i := *nCoefficients; i > 0; i--\<close>:
  the new value of \<open>*nCoefficients\<close>.
\<close>

function Trim_scan :: "FirFilter \<Rightarrow> real \<Rightarrow> int \<Rightarrow> int \<Rightarrow> panic + int" where
  "Trim_scan ff cutoff nCoefficients i =
     (if i > 0 then
        andThen (slice_get (Coef ff) i) (\<lambda>ci.
          if \<bar>ci\<bar> \<ge> \<bar>cutoff\<bar> then Inr i else Trim_scan ff cutoff nCoefficients (i - 1))
      else Inr nCoefficients)"
  by pat_completeness auto
termination
  by (relation "measure (\<lambda>(ff, cutoff, n, i). nat i)") auto

declare Trim_scan.simps [simp del]

definition Trim :: "FirFilter \<Rightarrow> real \<Rightarrow> int \<Rightarrow> panic + int" where
  "Trim ff cutoff nCoefficients = Trim_scan ff cutoff nCoefficients nCoefficients"

text \<open>
  \<open>Init(beta, gamma, cutoff)\<close>.  The value returned by \<open>MaximallyFlat\<close> is dropped by
  the source, and \<open>coefficients\<close> is still the fresh array of \<open>Limit+1\<close> zeros when the
  last loop reads it.
\<close>

definition Init :: "FirFilter \<Rightarrow> real \<Rightarrow> real \<Rightarrow> real \<Rightarrow> panic + FirFilter" where
  "Init ff beta gamma cutoff =
     (let coefficients = replicate (nat (Limit + 1)) (0 :: real) in
      andThen (MaximallyFlat ff beta gamma) (\<lambda>(nCoefficients, ff).
      andThen (Trim ff cutoff nCoefficients) (\<lambda>nCoefficients.
        let nTaps = nCoefficients * 2 - 1 in
        andThen (for_loop 0 nTaps (\<lambda>i (coef, pointer, increment).
            andThen (slice_get coefficients pointer) (\<lambda>v.
            andThen (slice_set coef i v) (\<lambda>coef.
              let pointer = pointer + increment in
              if pointer \<le> 0 then Inr (coef, 2, 1) else Inr (coef, pointer, increment))))
          (Coef ff, nCoefficients, - 1)) (\<lambda>(coef, pointer, increment).
          Inr (ff\<lparr>Coef := coef, Ptr := 0\<rparr>)))))"

section \<open>Tensors (the etensor library, as the repository uses it)\<close>

text \<open>
  A tensor is a shape and a flat slice of values in row-major order.  An index is turned
  into an offset into the flat slice with the strides of the shape, and only the offset
  is checked against the length of the slice: an index that leaves its own axis but
  stays inside the slice reads or writes a neighbouring cell.  One-dimensional tensors
  are modelled by their slice of values alone.
\<close>

record tensor =
  Shp :: "int list"
  Values :: "real list"

definition Offset :: "int list \<Rightarrow> int list \<Rightarrow> int" where
  "Offset shp ix = foldl (\<lambda>off (d, i). off * d + i) 0 (zip shp ix)"

definition Value :: "tensor \<Rightarrow> int list \<Rightarrow> panic + real" where
  "Value t ix = slice_get (Values t) (Offset (Shp t) ix)"

definition SetFloat :: "tensor \<Rightarrow> int list \<Rightarrow> real \<Rightarrow> panic + tensor" where
  "SetFloat t ix v =
     andThen (slice_set (Values t) (Offset (Shp t) ix) v) (\<lambda>vs. Inr (t\<lparr>Values := vs\<rparr>))"

definition Dim :: "tensor \<Rightarrow> int \<Rightarrow> panic + int" where
  "Dim t k = slice_get (Shp t) k"

text \<open>
  \<open>SetShape\<close> keeps the values that fit and fills the rest with zeros; the length of
  the slice is the product of the dimensions.
\<close>

definition SetShape :: "tensor \<Rightarrow> int list \<Rightarrow> tensor" where
  "SetShape t shp =
     (let n = nat (prod_list shp)
      in \<lparr>Shp = shp, Values = take n (Values t) @ replicate (n - length (Values t)) 0\<rparr>)"

section \<open>The mel filter bank (audio/mel.go)\<close>

record RenormSpec =
  RenormOn :: bool
  RenormMin :: real
  RenormMax :: real
  RenormScale :: real

record MelFBank =
  MelOn :: bool
  NFilters :: int
  LoHz :: real
  HiHz :: real
  LogOff :: real
  LogMin :: real
  LoMel :: real
  HiMel :: real
  FBankRenorm :: RenormSpec

record MelCepstrumSpec =
  MfccOn :: bool
  NCoeff :: int

record Mel =
  MelPtsMel :: "real list"
  MelPtsHz :: "real list"
  MelPtsBin :: "int list"
  MelFilters :: tensor
  MelFilterMaxBins :: int
  MelNFiltersEff :: int
  MelFBank :: MelFBank
  MelFBankOut :: "real list"
  MelFBankTrialOut :: tensor
  DftSize :: int
  DftUse :: int
  Mfcc :: MelCepstrumSpec
  MfccDctOut :: "real list"
  MfccDctTrialOut :: tensor

definition RenormSpec_Initialize :: "RenormSpec \<Rightarrow> RenormSpec" where
  "RenormSpec_Initialize rs =
     (let rs = rs\<lparr>RenormOn := True, RenormMin := - 5, RenormMax := 9\<rparr>
      in rs\<lparr>RenormScale := 1 / (RenormMax rs - RenormMin rs)\<rparr>)"

definition FreqToMel :: "real \<Rightarrow> real" where
  "FreqToMel freq = 1127 * ln (1 + freq / 700)"

definition MelToFreq :: "real \<Rightarrow> real" where
  "MelToFreq mel = 700 * (exp (mel / 1127) - 1)"

definition FreqToBin :: "real \<Rightarrow> real \<Rightarrow> real \<Rightarrow> int" where
  "FreqToBin freq nFft sampleRate = trunc (of_int \<lfloor>((nFft + 1) * freq) / sampleRate\<rfloor>)"

text \<open>
  The two conversions as the source computes them, every operation rounded to
  \<open>float32\<close>: \<open>1127.0 * math32.Log(1.0+freq/700.0)\<close> and
  \<open>700.0 * (math32.Exp(mel/1127.0) - 1.0)\<close>.  The logarithm and the exponential of
  the math32 library are parameters, \<open>log32\<close> and \<open>exp32\<close>.
\<close>

definition FreqToMel_float32 :: "(real \<Rightarrow> real) \<Rightarrow> real \<Rightarrow> real" where
  "FreqToMel_float32 log32 freq = float32 (1127 * log32 (float32 (1 + float32 (freq / 700))))"

definition MelToFreq_float32 :: "(real \<Rightarrow> real) \<Rightarrow> real \<Rightarrow> real" where
  "MelToFreq_float32 exp32 mel = float32 (700 * float32 (exp32 (float32 (mel / 1127)) - 1))"

definition MelFBank_Initialize :: "MelFBank \<Rightarrow> MelFBank" where
  "MelFBank_Initialize mfb =
     (let mfb = mfb\<lparr>MelOn := True, LoHz := 120, HiHz := 10000, NFilters := 32,
                    LogOff := 0, LogMin := - 10\<rparr>;
          mfb = mfb\<lparr>LoMel := FreqToMel (LoHz mfb)\<rparr>;
          mfb = mfb\<lparr>HiMel := FreqToMel (HiHz mfb)\<rparr>
      in mfb\<lparr>FBankRenorm := RenormSpec_Initialize (FBankRenorm mfb)\<rparr>)"

definition MelCepstrumSpec_Initialize :: "MelCepstrumSpec \<Rightarrow> MelCepstrumSpec" where
  "MelCepstrumSpec_Initialize mc = mc\<lparr>MfccOn := False, NCoeff := 13\<rparr>"

text \<open>\<open>SetShape\<close> of a one-dimensional tensor, on its slice of values.\<close>

definition SetShape1D :: "'a::zero list \<Rightarrow> int \<Rightarrow> 'a list" where
  "SetShape1D vs n = take (nat n) vs @ replicate (nat n - length vs) 0"

text \<open>
  The first loop of \<open>InitFilters\<close>, \<open>for idx := 0; idx < mel.MelNFiltersEff; idx++\<close>:
  the scale points in mel, in Hz and as FFT bins.
\<close>

definition InitFilters_points :: "Mel \<Rightarrow> int \<Rightarrow> panic + Mel" where
  "InitFilters_points mel sampleRate =
     (let melIncr = (HiMel (MelFBank mel) - LoMel (MelFBank mel))
                      / of_int (NFilters (MelFBank mel) + 1)
      in for_loop 0 (MelNFiltersEff mel) (\<lambda>idx mel.
           let ml = LoMel (MelFBank mel) + of_int idx * melIncr;
               hz = MelToFreq ml;
               bin = FreqToBin hz (of_int (DftUse mel)) (of_int sampleRate)
           in
           andThen (slice_set (MelPtsMel mel) idx ml) (\<lambda>ptsMel.
           andThen (slice_set (MelPtsHz mel) idx hz) (\<lambda>ptsHz.
           andThen (slice_set (MelPtsBin mel) idx bin) (\<lambda>ptsBin.
             Inr (mel\<lparr>MelPtsMel := ptsMel, MelPtsHz := ptsHz, MelPtsBin := ptsBin\<rparr>))))) mel)"

text \<open>
  The rising loop of one filter, \<open>for bin = mnbin; bin <= pkbin; bin, fi = bin+1, fi+1\<close>.
  The quotient \<open>(bin - mnbin) / pkmin\<close> of the source is a quotient of two values of
  type \<open>int\<close>, converted to \<open>float32\<close> afterwards.
\<close>

function InitFilters_rise ::
  "int \<Rightarrow> int \<Rightarrow> int \<Rightarrow> int \<Rightarrow> int \<times> int \<times> tensor \<Rightarrow> panic + (int \<times> int \<times> tensor)" where
  "InitFilters_rise f mnbin pkbin pkmin (bin, fi, filters) =
     (if bin \<le> pkbin then
        andThen (quo (bin - mnbin) pkmin) (\<lambda>q.
          let fval = of_int q in
          andThen (SetFloat filters [f, fi] fval) (\<lambda>filters.
            InitFilters_rise f mnbin pkbin pkmin (bin + 1, fi + 1, filters)))
      else Inr (bin, fi, filters))"
  by pat_completeness auto
termination
  by (relation "measure (\<lambda>(f, mnbin, pkbin, pkmin, bin, fi, filters). nat (pkbin + 1 - bin))") auto

declare InitFilters_rise.simps [simp del]

text \<open>The falling loop of one filter, \<open>for ; bin <= mxbin; bin, fi = bin+1, fi+1\<close>.\<close>

function InitFilters_fall ::
  "int \<Rightarrow> int \<Rightarrow> int \<Rightarrow> int \<times> int \<times> tensor \<Rightarrow> panic + (int \<times> int \<times> tensor)" where
  "InitFilters_fall f mxbin pkmax (bin, fi, filters) =
     (if bin \<le> mxbin then
        andThen (quo (mxbin - bin) pkmax) (\<lambda>q.
          let fval = of_int q in
          andThen (SetFloat filters [f, fi] fval) (\<lambda>filters.
            InitFilters_fall f mxbin pkmax (bin + 1, fi + 1, filters)))
      else Inr (bin, fi, filters))"
  by pat_completeness auto
termination
  by (relation "measure (\<lambda>(f, mxbin, pkmax, bin, fi, filters). nat (mxbin + 1 - bin))") auto

declare InitFilters_fall.simps [simp del]

text \<open>The body of \<open>for f := 0; f < mel.MelFBank.NFilters; f++\<close>.\<close>

definition InitFilters_filter :: "int list \<Rightarrow> int \<Rightarrow> tensor \<Rightarrow> panic + tensor" where
  "InitFilters_filter ptsBin f filters =
     andThen (slice_get ptsBin f) (\<lambda>mnbin.
     andThen (slice_get ptsBin (f + 1)) (\<lambda>pkbin.
     andThen (slice_get ptsBin (f + 2)) (\<lambda>mxbin.
       let pkmin = pkbin - mnbin;
           pkmax = mxbin - pkbin
       in
       andThen (InitFilters_rise f mnbin pkbin pkmin (mnbin, 0, filters)) (\<lambda>(bin, fi, filters).
       andThen (InitFilters_fall f mxbin pkmax (bin, fi, filters)) (\<lambda>(bin, fi, filters).
         Inr filters)))))"

text \<open>
  The rest of \<open>InitFilters\<close> after the scale points are stored: the width of the table
  and the weights of every filter.
\<close>

definition InitFilters_weights :: "Mel \<Rightarrow> panic + Mel" where
  "InitFilters_weights mel =
     andThen (slice_get (MelPtsBin mel) (MelNFiltersEff mel - 1)) (\<lambda>hi.
     andThen (slice_get (MelPtsBin mel) (MelNFiltersEff mel - 3)) (\<lambda>lo.
       let mel = mel\<lparr>MelFilterMaxBins := hi - lo + 1\<rparr>;
           mel = mel\<lparr>MelFilters :=
                   SetShape (MelFilters mel) [NFilters (MelFBank mel), MelFilterMaxBins mel]\<rparr>
       in
       andThen (for_loop 0 (NFilters (MelFBank mel)) (InitFilters_filter (MelPtsBin mel))
                  (MelFilters mel)) (\<lambda>filters.
         Inr (mel\<lparr>MelFilters := filters\<rparr>))))"

definition InitFilters :: "Mel \<Rightarrow> int \<Rightarrow> int \<Rightarrow> panic + Mel" where
  "InitFilters mel dftUse sampleRate =
     (let mel = mel\<lparr>DftUse := dftUse\<rparr>;
          mel = mel\<lparr>MelNFiltersEff := NFilters (MelFBank mel) + 2\<rparr>;
          mel = mel\<lparr>MelPtsMel := SetShape1D (MelPtsMel mel) (MelNFiltersEff mel),
                    MelPtsHz := SetShape1D (MelPtsHz mel) (MelNFiltersEff mel),
                    MelPtsBin := SetShape1D (MelPtsBin mel) (MelNFiltersEff mel)\<rparr>
      in andThen (InitFilters_points mel sampleRate) InitFilters_weights)"

definition Mel_Initialize :: "Mel \<Rightarrow> int \<Rightarrow> int \<Rightarrow> int \<Rightarrow> panic + Mel" where
  "Mel_Initialize mel dftUse winSamples sampleRate =
     (let mel = mel\<lparr>DftUse := dftUse\<rparr>;
          mel = mel\<lparr>MelFBank := MelFBank_Initialize (MelFBank mel)\<rparr>
      in InitFilters mel (DftUse mel) sampleRate)"

text \<open>
  \<open>MelFilterDft(ch, step, dftPowerOut)\<close>.  The inner loop
  \<open>for bin := minBin; bin < maxBin; bin, fi = bin+1, fi+1\<close> carries the sum and \<open>fi\<close>;
  the rest of the body of \<open>for f := 0; f < int(mel.MelFBank.NFilters); f, mi = f+1, mi+1\<close>
  turns the sum into the value that is stored, and the counter \<open>mi\<close> of the source runs
  in step with \<open>f\<close>.
\<close>

definition MelFilterDft_sum :: "Mel \<Rightarrow> int \<Rightarrow> int \<Rightarrow> int \<Rightarrow> real list \<Rightarrow> panic + (real \<times> int)" where
  "MelFilterDft_sum mel mi minBin maxBin dftPowerOut =
     for_loop minBin maxBin (\<lambda>bin (sum, fi).
       andThen (Value (MelFilters mel) [mi, fi]) (\<lambda>fVal.
       andThen (slice_get dftPowerOut bin) (\<lambda>pVal.
         Inr (sum + fVal * pVal, fi + 1)))) (0, 0)"

definition MelFilterDft_val :: "MelFBank \<Rightarrow> real \<Rightarrow> real" where
  "MelFilterDft_val mfb acc =
     (let sum = acc + LogOff mfb;
          val = (if sum = 0 then LogMin mfb else ln sum);
          val = (if RenormOn (FBankRenorm mfb) then val - RenormMin (FBankRenorm mfb) else val);
          val = (if val < 0 then 0 else val);
          val = val * RenormScale (FBankRenorm mfb);
          val = (if val > 1 then 1 else val)
      in val)"

definition MelFilterDft_filter :: "int \<Rightarrow> int \<Rightarrow> real list \<Rightarrow> int \<Rightarrow> Mel \<Rightarrow> panic + Mel" where
  "MelFilterDft_filter ch step dftPowerOut f mel =
     (let mi = f in
      andThen (slice_get (MelPtsBin mel) f) (\<lambda>minBin.
      andThen (slice_get (MelPtsBin mel) (f + 2)) (\<lambda>maxBin.
      andThen (MelFilterDft_sum mel mi minBin maxBin dftPowerOut) (\<lambda>(sum, fi).
        let val = MelFilterDft_val (MelFBank mel) sum in
        andThen (slice_set (MelFBankOut mel) mi val) (\<lambda>out.
        andThen (SetFloat (MelFBankTrialOut mel) [mi, step, ch] val) (\<lambda>trialOut.
          Inr (mel\<lparr>MelFBankOut := out, MelFBankTrialOut := trialOut\<rparr>)))))))"

definition MelFilterDft :: "Mel \<Rightarrow> int \<Rightarrow> int \<Rightarrow> real list \<Rightarrow> panic + Mel" where
  "MelFilterDft mel ch step dftPowerOut =
     for_loop 0 (NFilters (MelFBank mel)) (MelFilterDft_filter ch step dftPowerOut) mel"

text \<open>
  \<open>CepstrumDctMel(ch, step)\<close>.  The cosine transform is the one of the gonum library
  and is a parameter, \<open>dct\<close>.
\<close>

definition CepstrumDctMel :: "(real list \<Rightarrow> real list) \<Rightarrow> Mel \<Rightarrow> int \<Rightarrow> int \<Rightarrow> panic + Mel" where
  "CepstrumDctMel dct mel ch step =
     (let mel = mel\<lparr>MfccDctOut := copy_slice (MfccDctOut mel) (MelFBankOut mel)\<rparr>;
          mfccDctOut = dct (MfccDctOut mel)
      in
      andThen (slice_get mfccDctOut 0) (\<lambda>el0.
      andThen (slice_set mfccDctOut 0 (ln (1 + el0 * el0))) (\<lambda>mfccDctOut.
      andThen (for_loop 0 (NFilters (MelFBank mel)) (\<lambda>i trialOut.
          andThen (slice_get mfccDctOut i) (\<lambda>v.
            SetFloat trialOut [i, step, ch] v)) (MfccDctTrialOut mel)) (\<lambda>trialOut.
        Inr (mel\<lparr>MfccDctTrialOut := trialOut\<rparr>)))))"

text \<open>
  \<open>FilterWindow(ch, step, windowIn, dft, firstStep)\<close>: the window and the flag are not
  used by the source; the power spectrum is the field \<open>DftPowerOut\<close> of \<open>dft\<close>.
\<close>

definition FilterWindow ::
  "(real list \<Rightarrow> real list) \<Rightarrow> Mel \<Rightarrow> int \<Rightarrow> int \<Rightarrow> real list \<Rightarrow> real list \<Rightarrow> bool \<Rightarrow> panic + Mel" where
  "FilterWindow dct mel ch step windowIn dftPowerOut firstStep =
     (if MelOn (MelFBank mel) then
        andThen (MelFilterDft mel ch step dftPowerOut) (\<lambda>mel.
          if MfccOn (Mfcc mel) then CepstrumDctMel dct mel ch step else Inr mel)
      else Inr mel)"

text \<open>
  \<open>CopyStepFromStep(toStep, fmStep, ch)\<close>; the body of each of its two loops copies
  the cell of one filter.
\<close>

definition CopyStepFromStep_filter :: "int \<Rightarrow> int \<Rightarrow> int \<Rightarrow> int \<Rightarrow> tensor \<Rightarrow> panic + tensor" where
  "CopyStepFromStep_filter toStep fmStep ch i trialOut =
     andThen (Value trialOut [i, fmStep, ch]) (\<lambda>val.
       SetFloat trialOut [i, toStep, ch] val)"

definition CopyStepFromStep :: "Mel \<Rightarrow> int \<Rightarrow> int \<Rightarrow> int \<Rightarrow> panic + Mel" where
  "CopyStepFromStep mel toStep fmStep ch =
     (if MelOn (MelFBank mel) then
        andThen (for_loop 0 (NFilters (MelFBank mel)) (CopyStepFromStep_filter toStep fmStep ch)
                   (MelFBankTrialOut mel)) (\<lambda>trialOut.
          let mel = mel\<lparr>MelFBankTrialOut := trialOut\<rparr> in
          if MfccOn (Mfcc mel) then
            andThen (for_loop 0 (NFilters (MelFBank mel)) (CopyStepFromStep_filter toStep fmStep ch)
                       (MfccDctTrialOut mel)) (\<lambda>trialOut.
              Inr (mel\<lparr>MfccDctTrialOut := trialOut\<rparr>))
          else Inr mel)
      else Inr mel)"

section \<open>The analyzer (audio, the file of \<open>AuditoryProc\<close>)\<close>

text \<open>
  The fields of \<open>Input\<close> and \<open>Gabor\<close> are those the analyzer reads.  The field
  \<open>NFilters\<close> of a \<open>Gabor\<close> is \<open>GaborNFilters\<close> here, its \<open>Shape\<close> is the pair
  \<open>ShapeX\<close>, \<open>ShapeY\<close>, and the table \<open>Data\<close> is modelled by its number of rows.
\<close>

record Input =
  WinSamples :: int
  StepSamples :: int
  TrialSamples :: int
  TrialSteps :: int
  TotalSteps :: int
  BorderSteps :: int
  SampleRate :: int
  Channels :: int
  Channel :: int

record Gabor =
  GaborOn :: bool
  SizeTime :: int
  SizeFreq :: int
  SpaceTime :: int
  SpaceFreq :: int
  Gain :: real
  GaborNFilters :: int
  ShapeX :: int
  ShapeY :: int

record AuditoryProc =
  Mel :: Mel
  DataRows :: int
  Input :: Input
  Gabor1 :: Gabor
  Gabor2 :: Gabor
  Gabor3 :: Gabor
  Gabor1Filters :: tensor
  Gabor2Filters :: tensor
  Gabor3Filters :: tensor
  FirstStep :: bool
  InputPos :: int
  TrialStartPos :: int
  TrialEndPos :: int
  SoundFull :: tensor
  WindowIn :: "real list"
  UseInhib :: bool
  Gabor1Raw :: tensor
  Gabor1Out :: tensor
  Gabor2Raw :: tensor
  Gabor2Out :: tensor
  Gabor3Raw :: tensor
  Gabor3Out :: tensor

text \<open>
  What the analyzer calls and the sources do not hold: \<open>Initialize\<close> (it runs the
  initializers of \<open>Input\<close> and \<open>Gabor\<close>, which are not among the sources), the cosine
  transform, the power spectrum \<open>DftPowerOut\<close> of the \<open>Dft\<close> value handed to
  \<open>FilterWindow\<close>, the inhibition of the leabra library over the raw activations of one
  channel, and the cells of the table, which \<open>MelOutputToTable\<close> fills from the tensors
  it reads.
\<close>

record env =
  Initialize :: "AuditoryProc \<Rightarrow> panic + AuditoryProc"
  dct :: "real list \<Rightarrow> real list"
  DftPowerOut :: "AuditoryProc \<Rightarrow> real list"
  Inhib :: "real list \<Rightarrow> real list"
  MelOutputToTable :: "AuditoryProc \<Rightarrow> int \<Rightarrow> bool \<Rightarrow> panic + unit"

text \<open>
  \<open>InitSound()\<close>.  \<open>Initialize()\<close> calls it after the initializers and before its
  last statement, \<open>ap.UseInhib = true\<close>, so that the analyzer it returns has
  \<open>InputPos = 0\<close>.
\<close>

definition InitSound :: "AuditoryProc \<Rightarrow> AuditoryProc" where
  "InitSound ap = ap\<lparr>InputPos := 0\<rparr>"

definition NeedsInit :: "AuditoryProc \<Rightarrow> bool" where
  "NeedsInit ap =
     (if DftSize (Mel ap) \<noteq> WinSamples (Input ap)
         \<or> MelNFiltersEff (Mel ap) \<noteq> NFilters (MelFBank (Mel ap)) + 2
      then True else False)"

definition InputStepsLeft :: "AuditoryProc \<Rightarrow> panic + int" where
  "InputStepsLeft ap =
     (let samplesLeft = int (length (Values (SoundFull ap))) - InputPos ap
      in quo samplesLeft (StepSamples (Input ap)))"

definition SoundToWindow :: "AuditoryProc \<Rightarrow> int \<Rightarrow> int \<Rightarrow> panic + AuditoryProc" where
  "SoundToWindow ap inPos ch =
     (let samplesAvail = int (length (Values (SoundFull ap))) - inPos;
          samplesCopy = min samplesAvail (WinSamples (Input ap))
      in
      andThen (if samplesCopy > 0 \<and> length (Shp (SoundFull ap)) = 1
               then andThen (slice_range (Values (SoundFull ap)) inPos (samplesCopy + inPos)) (\<lambda>src.
                      Inr (ap\<lparr>WindowIn := copy_slice (WindowIn ap) src\<rparr>))
               else Inr ap) (\<lambda>ap.
        let samplesCopy = max samplesCopy 0;
            zeroN = WinSamples (Input ap) - samplesCopy
        in
        if zeroN > 0 then
          let sz = zeroN * 4 in
          andThen (slice_range (WindowIn ap) samplesCopy (int (length (WindowIn ap)))) (\<lambda>dst.
            Inr (ap\<lparr>WindowIn := take (nat samplesCopy) (WindowIn ap)
                                  @ copy_slice dst (replicate (nat sz) 0)\<rparr>))
        else Inr ap))"

definition WrapBorder_step :: "int \<Rightarrow> int \<Rightarrow> int \<Rightarrow> AuditoryProc \<Rightarrow> panic + AuditoryProc" where
  "WrapBorder_step srcStStep ch s ap =
     andThen (CopyStepFromStep (Mel ap) s (srcStStep + s) ch) (\<lambda>mel. Inr (ap\<lparr>Mel := mel\<rparr>))"

definition WrapBorder :: "AuditoryProc \<Rightarrow> int \<Rightarrow> panic + AuditoryProc" where
  "WrapBorder ap ch =
     (if BorderSteps (Input ap) = 0 then Inr ap
      else
        let borderEff = 2 * BorderSteps (Input ap);
            srcStStep = TotalSteps (Input ap) - borderEff
        in for_loop 0 borderEff (WrapBorder_step srcStStep ch) ap)"

definition StepForward :: "AuditoryProc \<Rightarrow> int \<Rightarrow> panic + AuditoryProc" where
  "StepForward ap ch =
     (let totalM1 = TotalSteps (Input ap) - 1
      in for_loop 0 totalM1 (\<lambda>s ap.
           andThen (CopyStepFromStep (Mel ap) s (s + 1) ch) (\<lambda>mel.
             Inr (ap\<lparr>Mel := mel\<rparr>))) ap)"

definition ProcessStep :: "env \<Rightarrow> AuditoryProc \<Rightarrow> int \<Rightarrow> int \<Rightarrow> panic + AuditoryProc" where
  "ProcessStep ev ap ch step =
     andThen (SoundToWindow ap (InputPos ap) ch) (\<lambda>ap.
     andThen (FilterWindow (dct ev) (Mel ap) ch step (WindowIn ap) (DftPowerOut ev ap)
                (FirstStep ap)) (\<lambda>mel.
       let ap = ap\<lparr>Mel := mel\<rparr>;
           ap = ap\<lparr>InputPos := InputPos ap + StepSamples (Input ap)\<rparr>
       in Inr (ap\<lparr>FirstStep := False\<rparr>)))"

text \<open>
  \<open>GaborFilter\<close>.  The tensors \<open>outRaw\<close> and \<open>out\<close> are passed by value and share
  their slices of values with the caller; \<open>SetFloat\<close> never changes a shape, so the
  loops carry the two slices and read the shapes from the tensors they were given.

  The sum of one kernel at one tap:
  \<open>for ff := 0; ff < spec.SizeFreq; ff++ { for ft := 0; ft < spec.SizeTime; ft++ {...} }\<close>.
\<close>

definition GaborFilter_sum ::
  "AuditoryProc \<Rightarrow> int \<Rightarrow> Gabor \<Rightarrow> tensor \<Rightarrow> int \<Rightarrow> int \<Rightarrow> int \<Rightarrow> panic + real" where
  "GaborFilter_sum ap ch spec filters flt inSt fi =
     for_loop 0 (SizeFreq spec) (\<lambda>ff fSum.
       for_loop 0 (SizeTime spec) (\<lambda>ft fSum.
         andThen (Value filters [ft, ff, fi]) (\<lambda>fVal.
         andThen (Value (MelFBankTrialOut (Mel ap)) [flt + ff, inSt + ft, ch]) (\<lambda>iVal.
           Inr (fSum + fVal * iVal)))) fSum) 0"

text \<open>The loop over the kernels at one tap, \<open>for fi := int(0); fi < nf; fi++\<close>.\<close>

definition GaborFilter_tap ::
  "AuditoryProc \<Rightarrow> int \<Rightarrow> Gabor \<Rightarrow> tensor \<Rightarrow> int \<Rightarrow> int \<Rightarrow> int \<Rightarrow> int \<Rightarrow>
   tensor \<times> tensor \<Rightarrow> panic + (tensor \<times> tensor)" where
  "GaborFilter_tap ap ch spec filters flt inSt fIdx tIdx =
     (let nf = GaborNFilters spec in
      for_loop 0 nf (\<lambda>fi (outRaw, out).
        andThen (GaborFilter_sum ap ch spec filters flt inSt fi) (\<lambda>fSum.
          let pos = (fSum \<ge> 0);
              act = Gain spec * \<bar>fSum\<bar>
          in
          if pos then
            andThen (SetFloat outRaw [ch, fi, 0, fIdx, tIdx] act) (\<lambda>outRaw.
            andThen (SetFloat outRaw [ch, fi, 1, fIdx, tIdx] 0) (\<lambda>outRaw.
            andThen (SetFloat out [ch, fi, 0, fIdx, tIdx] act) (\<lambda>out.
            andThen (SetFloat out [ch, fi, 1, fIdx, tIdx] 0) (\<lambda>out.
              Inr (outRaw, out)))))
          else
            andThen (SetFloat outRaw [ch, fi, 0, fIdx, tIdx] 0) (\<lambda>outRaw.
            andThen (SetFloat outRaw [ch, fi, 1, fIdx, tIdx] act) (\<lambda>outRaw.
            andThen (SetFloat out [ch, fi, 0, fIdx, tIdx] 0) (\<lambda>out.
            andThen (SetFloat out [ch, fi, 1, fIdx, tIdx] act) (\<lambda>out.
              Inr (outRaw, out))))))))"

text \<open>
  The loop over the frequency taps,
  \<open>for flt := fMin; flt < fMax; flt, fIdx = flt+spec.SpaceFreq, fIdx+1\<close>, left by
  \<open>break\<close> when \<open>fIdx > outRaw.Dim(3)\<close>.  \<open>shp\<close> is the shape of \<open>outRaw\<close>.
\<close>

function GaborFilter_freq ::
  "AuditoryProc \<Rightarrow> int \<Rightarrow> Gabor \<Rightarrow> tensor \<Rightarrow> int list \<Rightarrow> int \<Rightarrow> int \<Rightarrow> int \<Rightarrow>
   int \<times> int \<times> tensor \<times> tensor \<Rightarrow> panic + (tensor \<times> tensor)" where
  "GaborFilter_freq ap ch spec filters shp fMax inSt tIdx (flt, fIdx, outRaw, out) =
     (if flt < fMax then
        (case slice_get shp 3 of
           Inl e \<Rightarrow> Inl e
         | Inr dim3 \<Rightarrow>
             if fIdx > dim3 then Inr (outRaw, out)
             else
               (case GaborFilter_tap ap ch spec filters flt inSt fIdx tIdx (outRaw, out) of
                  Inl e \<Rightarrow> Inl e
                | Inr (outRaw, out) \<Rightarrow>
                    GaborFilter_freq ap ch spec filters shp fMax inSt tIdx
                      (flt + SpaceFreq spec, fIdx + 1, outRaw, out)))
      else Inr (outRaw, out))"
  by pat_completeness auto
termination
  by (relation "measure (\<lambda>(ap, ch, spec, filters, shp, fMax, inSt, tIdx, flt, fIdx, outRaw, out).
        case slice_get shp 3 of Inl e \<Rightarrow> 0 | Inr dim3 \<Rightarrow> nat (dim3 + 1 - fIdx))") auto

declare GaborFilter_freq.simps [simp del]

text \<open>
  The loop over the time taps,
  \<open>for s := tMin; s < tMax; s, tIdx = s+spec.SpaceTime, tIdx+1\<close>, left by \<open>break\<close>
  when \<open>tIdx > outRaw.Dim(4)\<close>.
\<close>

function GaborFilter_time ::
  "AuditoryProc \<Rightarrow> int \<Rightarrow> Gabor \<Rightarrow> tensor \<Rightarrow> int list \<Rightarrow> int \<Rightarrow> int \<Rightarrow> int \<Rightarrow> int \<Rightarrow>
   int \<times> int \<times> tensor \<times> tensor \<Rightarrow> panic + (tensor \<times> tensor)" where
  "GaborFilter_time ap ch spec filters shp tOff tMax fMin fMax (s, tIdx, outRaw, out) =
     (if s < tMax then
        (let inSt = s - tOff in
         case slice_get shp 4 of
           Inl e \<Rightarrow> Inl e
         | Inr dim4 \<Rightarrow>
             if tIdx > dim4 then Inr (outRaw, out)
             else
               (case GaborFilter_freq ap ch spec filters shp fMax inSt tIdx
                       (fMin, 0, outRaw, out) of
                  Inl e \<Rightarrow> Inl e
                | Inr (outRaw, out) \<Rightarrow>
                    GaborFilter_time ap ch spec filters shp tOff tMax fMin fMax
                      (s + SpaceTime spec, tIdx + 1, outRaw, out)))
      else Inr (outRaw, out))"
  by pat_completeness auto
termination
  by (relation "measure (\<lambda>(ap, ch, spec, filters, shp, tOff, tMax, fMin, fMax, s, tIdx, outRaw, out).
        case slice_get shp 4 of Inl e \<Rightarrow> 0 | Inr dim4 \<Rightarrow> nat (dim4 + 1 - tIdx))") auto

declare GaborFilter_time.simps [simp del]

text \<open>
  \<open>t.SubSpace(subdim, []int{ch})\<close>: the start and the length of the sub-slice of
  values of \<open>ch\<close>, which the sub-tensor shares with \<open>t\<close>.  The library returns nil when
  the number of outer dimensions is not the number of offsets, and the source converts
  the result to a \<open>*etensor.Float32\<close>.
\<close>

definition SubSpace :: "tensor \<Rightarrow> int \<Rightarrow> int \<Rightarrow> panic + (int \<times> int)" where
  "SubSpace t subdim ch =
     (let od = int (length (Shp t)) - subdim in
      if od \<noteq> 1 then Inl TypeAssertion
      else
        let len = prod_list (tl (Shp t));
            stoff = ch * len
        in
        andThen (slice_range (Values t) stoff (stoff + len)) (\<lambda>values. Inr (stoff, len)))"

text \<open>
  The inhibition of \<open>GaborFilter\<close> reads the raw values of channel \<open>ch\<close> and writes its
  result into the values of \<open>out\<close> for that channel with \<open>SetFloat1D\<close>.
\<close>

definition GaborFilter_inhib ::
  "env \<Rightarrow> int \<Rightarrow> tensor \<Rightarrow> tensor \<Rightarrow> panic + tensor" where
  "GaborFilter_inhib ev ch outRaw out =
     andThen (SubSpace outRaw (int (length (Shp outRaw)) - 1) ch) (\<lambda>(rawOff, rawLen).
     andThen (SubSpace out (int (length (Shp outRaw)) - 1) ch) (\<lambda>(outOff, outLen).
     andThen (slice_range (Values outRaw) rawOff (rawOff + rawLen)) (\<lambda>values.
       let acts = Inhib ev values in
       andThen (for_loop 0 (int (length acts)) (\<lambda>i vs.
           andThen (slice_get acts i) (\<lambda>act.
             if i < outLen then slice_set vs (outOff + i) act else Inl IndexOutOfRange))
         (Values out)) (\<lambda>vs.
         Inr (out\<lparr>Values := vs\<rparr>)))))"

definition GaborFilter ::
  "env \<Rightarrow> AuditoryProc \<Rightarrow> int \<Rightarrow> Gabor \<Rightarrow> tensor \<Rightarrow> tensor \<Rightarrow> tensor \<Rightarrow> panic + (tensor \<times> tensor)" where
  "GaborFilter ev ap ch spec filters outRaw out =
     (let tHalfSz = tdiv (SizeTime spec) 2;
          tOff = tHalfSz - BorderSteps (Input ap);
          tMin = tOff;
          tMin = (if tMin < 0 then 0 else tMin);
          tMax = TrialSteps (Input ap) - tMin;
          fMin = 0;
          fMax = NFilters (MelFBank (Mel ap)) - SizeFreq spec
      in
      andThen (GaborFilter_time ap ch spec filters (Shp outRaw) tOff tMax fMin fMax
                 (tMin, 0, outRaw, out)) (\<lambda>(outRaw, out).
        if UseInhib ap then
          andThen (GaborFilter_inhib ev ch outRaw out) (\<lambda>out. Inr (outRaw, out))
        else Inr (outRaw, out)))"

definition FilterTrial :: "env \<Rightarrow> AuditoryProc \<Rightarrow> int \<Rightarrow> panic + AuditoryProc" where
  "FilterTrial ev ap ch =
     andThen (if GaborOn (Gabor1 ap) then
                andThen (GaborFilter ev ap ch (Gabor1 ap) (Gabor1Filters ap)
                           (Gabor1Raw ap) (Gabor1Out ap)) (\<lambda>(outRaw, out).
                  Inr (ap\<lparr>Gabor1Raw := outRaw, Gabor1Out := out\<rparr>))
              else Inr ap) (\<lambda>ap.
     andThen (if GaborOn (Gabor2 ap) then
                andThen (GaborFilter ev ap ch (Gabor2 ap) (Gabor2Filters ap)
                           (Gabor2Raw ap) (Gabor2Out ap)) (\<lambda>(outRaw, out).
                  Inr (ap\<lparr>Gabor2Raw := outRaw, Gabor2Out := out\<rparr>))
              else Inr ap) (\<lambda>ap.
       if GaborOn (Gabor3 ap) then
         andThen (GaborFilter ev ap ch (Gabor3 ap) (Gabor3Filters ap)
                    (Gabor3Raw ap) (Gabor3Out ap)) (\<lambda>(outRaw, out).
           Inr (ap\<lparr>Gabor3Raw := outRaw, Gabor3Out := out\<rparr>))
       else Inr ap))"

text \<open>\<open>OutputToTable(ch)\<close>: the analyzer is only read.\<close>

definition OutputToTable :: "env \<Rightarrow> AuditoryProc \<Rightarrow> int \<Rightarrow> panic + AuditoryProc" where
  "OutputToTable ev ap ch =
     (if MelOn (MelFBank (Mel ap)) then
        andThen (MelOutputToTable ev ap ch False) (\<lambda>u. Inr ap)
      else Inr ap)"

text \<open>
  \<open>ProcessTrial()\<close>: the value returned and the analyzer after the call.  The body of
  the loop over the channels is \<open>ProcessTrial_first\<close> for the first trial of a sound and
  \<open>ProcessTrial_next\<close> for every other trial.
\<close>

definition ProcessTrial_first :: "env \<Rightarrow> int \<Rightarrow> int \<Rightarrow> AuditoryProc \<Rightarrow> panic + AuditoryProc" where
  "ProcessTrial_first ev startPos ch ap =
     (let ap = ap\<lparr>InputPos := startPos\<rparr> in
      andThen (for_loop 0 (TotalSteps (Input ap)) (\<lambda>s ap. ProcessStep ev ap ch s) ap) (\<lambda>ap.
      andThen (FilterTrial ev ap ch) (\<lambda>ap.
        OutputToTable ev ap ch)))"

definition ProcessTrial_next :: "env \<Rightarrow> int \<Rightarrow> int \<Rightarrow> int \<Rightarrow> AuditoryProc \<Rightarrow> panic + AuditoryProc" where
  "ProcessTrial_next ev startPos border ch ap =
     (let ap = ap\<lparr>InputPos := startPos\<rparr> in
      andThen (WrapBorder ap ch) (\<lambda>ap.
      andThen (for_loop border (TotalSteps (Input ap)) (\<lambda>s ap. ProcessStep ev ap ch s) ap) (\<lambda>ap.
      andThen (FilterTrial ev ap ch) (\<lambda>ap.
        OutputToTable ev ap ch))))"

definition ProcessTrial :: "env \<Rightarrow> AuditoryProc \<Rightarrow> panic + (bool \<times> AuditoryProc)" where
  "ProcessTrial ev ap =
     andThen (if NeedsInit ap then Initialize ev ap else Inr ap) (\<lambda>ap.
       let ap = ap\<lparr>DataRows := DataRows ap + 1\<rparr> in
       andThen (InputStepsLeft ap) (\<lambda>stepsLeft.
         if stepsLeft < 1 then Inr (False, ap)
         else
           let startPos = InputPos ap in
           if InputPos ap = 0 then
             let border = 2 * BorderSteps (Input ap);
                 ap = ap\<lparr>TrialStartPos := InputPos ap\<rparr>;
                 ap = ap\<lparr>TrialEndPos := TrialStartPos ap + TrialSamples (Input ap)
                                           + 2 * border * StepSamples (Input ap)\<rparr>
             in
             andThen (for_loop 0 (Channels (Input ap)) (ProcessTrial_first ev startPos) ap) (\<lambda>ap.
               Inr (True, ap))
           else
             let border = 2 * BorderSteps (Input ap);
                 ap = ap\<lparr>TrialStartPos := InputPos ap
                                             - StepSamples (Input ap) * BorderSteps (Input ap)\<rparr>;
                 ap = ap\<lparr>TrialEndPos := TrialStartPos ap + TrialSamples (Input ap)\<rparr>
             in
             andThen (for_loop 0 (Channels (Input ap)) (ProcessTrial_next ev startPos border) ap) (\<lambda>ap.
               Inr (True, ap))))"

text \<open>
  The weights of one filter in \<open>InitFiltersMel\<close>, the form of \<open>InitFilters\<close> that is a
  method of the analyzer: the loops stop before \<open>pkbin\<close> and before \<open>mxbin\<close>, the table is
  indexed \<open>[fi, f]\<close>, and the scale points are stored as \<open>float32\<close>.
\<close>

function InitFiltersMel_rise ::
  "int \<Rightarrow> int \<Rightarrow> int \<Rightarrow> int \<Rightarrow> int \<times> int \<times> tensor \<Rightarrow> panic + (int \<times> int \<times> tensor)" where
  "InitFiltersMel_rise f mnbin pkbin pkmin (bin, fi, filters) =
     (if bin < pkbin then
        andThen (quo (bin - mnbin) pkmin) (\<lambda>q.
          let fval = of_int q in
          andThen (SetFloat filters [fi, f] fval) (\<lambda>filters.
            InitFiltersMel_rise f mnbin pkbin pkmin (bin + 1, fi + 1, filters)))
      else Inr (bin, fi, filters))"
  by pat_completeness auto
termination
  by (relation "measure (\<lambda>(f, mnbin, pkbin, pkmin, bin, fi, filters). nat (pkbin - bin))") auto

declare InitFiltersMel_rise.simps [simp del]

function InitFiltersMel_fall ::
  "int \<Rightarrow> int \<Rightarrow> int \<Rightarrow> int \<times> int \<times> tensor \<Rightarrow> panic + (int \<times> int \<times> tensor)" where
  "InitFiltersMel_fall f mxbin pkmax (bin, fi, filters) =
     (if bin < mxbin then
        andThen (quo (mxbin - bin) pkmax) (\<lambda>q.
          let fval = of_int q in
          andThen (SetFloat filters [fi, f] fval) (\<lambda>filters.
            InitFiltersMel_fall f mxbin pkmax (bin + 1, fi + 1, filters)))
      else Inr (bin, fi, filters))"
  by pat_completeness auto
termination
  by (relation "measure (\<lambda>(f, mxbin, pkmax, bin, fi, filters). nat (mxbin - bin))") auto

declare InitFiltersMel_fall.simps [simp del]

definition InitFiltersMel_filter :: "real list \<Rightarrow> int \<Rightarrow> tensor \<Rightarrow> panic + tensor" where
  "InitFiltersMel_filter ptsBin f filters =
     andThen (slice_get ptsBin f) (\<lambda>mn.
     andThen (slice_get ptsBin (f + 1)) (\<lambda>pk.
     andThen (slice_get ptsBin (f + 2)) (\<lambda>mx.
       let mnbin = trunc mn;
           pkbin = trunc pk;
           mxbin = trunc mx;
           pkmin = pkbin - mnbin;
           pkmax = mxbin - pkbin
       in
       andThen (InitFiltersMel_rise f mnbin pkbin pkmin (mnbin, 0, filters)) (\<lambda>(bin, fi, filters).
       andThen (InitFiltersMel_fall f mxbin pkmax (bin, fi, filters)) (\<lambda>(bin, fi, filters).
         Inr filters)))))"

section \<open>Zero values\<close>

text \<open>The zero value of each struct type, as Go gives it to a variable that is declared.\<close>

definition tensor_zero :: tensor where
  "tensor_zero = \<lparr>Shp = [], Values = []\<rparr>"

definition MelFBank_zero :: MelFBank where
  "MelFBank_zero =
     \<lparr>MelOn = False, NFilters = 0, LoHz = 0, HiHz = 0, LogOff = 0, LogMin = 0, LoMel = 0,
      HiMel = 0,
      FBankRenorm = \<lparr>RenormOn = False, RenormMin = 0, RenormMax = 0, RenormScale = 0\<rparr>\<rparr>"

definition Mel_zero :: Mel where
  "Mel_zero =
     \<lparr>MelPtsMel = [], MelPtsHz = [], MelPtsBin = [], MelFilters = tensor_zero,
      MelFilterMaxBins = 0, MelNFiltersEff = 0, MelFBank = MelFBank_zero, MelFBankOut = [],
      MelFBankTrialOut = tensor_zero, DftSize = 0, DftUse = 0,
      Mfcc = \<lparr>MfccOn = False, NCoeff = 0\<rparr>, MfccDctOut = [], MfccDctTrialOut = tensor_zero\<rparr>"

definition Input_zero :: Input where
  "Input_zero =
     \<lparr>WinSamples = 0, StepSamples = 0, TrialSamples = 0, TrialSteps = 0, TotalSteps = 0,
      BorderSteps = 0, SampleRate = 0, Channels = 0, Channel = 0\<rparr>"

definition Gabor_zero :: Gabor where
  "Gabor_zero =
     \<lparr>GaborOn = False, SizeTime = 0, SizeFreq = 0, SpaceTime = 0, SpaceFreq = 0, Gain = 0,
      GaborNFilters = 0, ShapeX = 0, ShapeY = 0\<rparr>"

definition AuditoryProc_zero :: AuditoryProc where
  "AuditoryProc_zero =
     \<lparr>Mel = Mel_zero, DataRows = 0, Input = Input_zero,
      Gabor1 = Gabor_zero, Gabor2 = Gabor_zero, Gabor3 = Gabor_zero,
      Gabor1Filters = tensor_zero, Gabor2Filters = tensor_zero, Gabor3Filters = tensor_zero,
      FirstStep = False, InputPos = 0, TrialStartPos = 0, TrialEndPos = 0,
      SoundFull = tensor_zero, WindowIn = [], UseInhib = False,
      Gabor1Raw = tensor_zero, Gabor1Out = tensor_zero,
      Gabor2Raw = tensor_zero, Gabor2Out = tensor_zero,
      Gabor3Raw = tensor_zero, Gabor3Out = tensor_zero\<rparr>"

section \<open>The mel energy in the words of the specification\<close>


section \<open>Cells of a trial tensor that a call leaves alone\<close>

text \<open>
  \<open>keeps T C W t t'\<close>: the tensors \<open>t\<close> and \<open>t'\<close> have one shape, and every cell
  \<open>[i, s, c]\<close> with a step \<open>s\<close> below \<open>T\<close> and a channel \<open>c\<close> below \<open>C\<close> reads the same in
  both, but for the cells that \<open>W\<close> names.
\<close>

definition keeps :: "int \<Rightarrow> int \<Rightarrow> (int \<Rightarrow> int \<Rightarrow> int \<Rightarrow> bool) \<Rightarrow> tensor \<Rightarrow> tensor \<Rightarrow> bool" where
  "keeps T C W t t' =
     (Shp t' = Shp t \<and>
      (\<forall>i s c. 0 \<le> s \<and> s < T \<and> 0 \<le> c \<and> c < C \<and> \<not> W i s c
         \<longrightarrow> Value t' [i, s, c] = Value t [i, s, c]))"

chapter \<open>Properties\<close>

section \<open>Loops and slices\<close>

lemma Offset2 [simp]: "Offset [d0, d1] [i, j] = i * d1 + j"
  by (simp add: Offset_def)

lemma Offset3 [simp]: "Offset [d0, d1, d2] [i, j, k] = (i * d1 + j) * d2 + k"
  by (simp add: Offset_def)

lemma Offset5 [simp]:
  "Offset [d0, d1, d2, d3, d4] [i0, i1, i2, i3, i4]
     = (((i0 * d1 + i1) * d2 + i2) * d3 + i3) * d4 + i4"
  by (simp add: Offset_def)

lemma for_loop_done: "n \<le> i \<Longrightarrow> for_loop i n body st = Inr st"
  by (subst for_loop.simps) simp

lemma for_loop_step:
  "i < n \<Longrightarrow> for_loop i n body st = andThen (body i st) (for_loop (i + 1) n body)"
  by (subst for_loop.simps) (simp add: andThen_def)

lemma for_loop_invariant:
  assumes "for_loop a n body st = Inr st'" and "P a st" and "a \<le> n"
    and "\<And>i s s'. a \<le> i \<Longrightarrow> i < n \<Longrightarrow> P i s \<Longrightarrow> body i s = Inr s' \<Longrightarrow> P (i + 1) s'"
  shows "P n st'"
  using assms
proof (induction "nat (n - a)" arbitrary: a st)
  case 0
  then have "a = n" by simp
  with 0 show ?case by (simp add: for_loop_done)
next
  case (Suc m)
  then have lt: "a < n" by simp
  from Suc.prems(1) lt obtain s1 where b: "body a st = Inr s1"
    and r: "for_loop (a + 1) n body s1 = Inr st'"
    by (auto simp add: for_loop_step andThen_def split: sum.splits)
  have p1: "P (a + 1) s1" using Suc.prems(4) [OF _ lt Suc.prems(2) b] by simp
  have m: "m = nat (n - (a + 1))" using Suc.hyps(2) by simp
  show ?case
  proof (rule Suc.hyps(1) [OF m r p1])
    show "a + 1 \<le> n" using lt by simp
    fix i s s' assume "a + 1 \<le> i" "i < n" "P i s" "body i s = Inr s'"
    then show "P (i + 1) s'" using Suc.prems(4) [of i s s'] by simp
  qed
qed

lemma for_loop_total:
  assumes "P a st" and "a \<le> n"
    and "\<And>i s. a \<le> i \<Longrightarrow> i < n \<Longrightarrow> P i s \<Longrightarrow> \<exists>s'. body i s = Inr s' \<and> P (i + 1) s'"
  shows "\<exists>st'. for_loop a n body st = Inr st' \<and> P n st'"
  using assms
proof (induction "nat (n - a)" arbitrary: a st)
  case 0
  then have "a = n" by simp
  with 0 show ?case by (simp add: for_loop_done)
next
  case (Suc m)
  then have lt: "a < n" by simp
  from Suc.prems(3) [OF _ lt Suc.prems(1)] obtain s1 where b: "body a st = Inr s1"
    and p1: "P (a + 1) s1" by auto
  have m: "m = nat (n - (a + 1))" using Suc.hyps(2) by simp
  have "\<exists>st'. for_loop (a + 1) n body s1 = Inr st' \<and> P n st'"
  proof (rule Suc.hyps(1) [OF m p1])
    show "a + 1 \<le> n" using lt by simp
    fix i s assume "a + 1 \<le> i" "i < n" "P i s"
    then show "\<exists>s'. body i s = Inr s' \<and> P (i + 1) s'" using Suc.prems(3) [of i s] by simp
  qed
  then show ?case using lt b by (simp add: for_loop_step andThen_def)
qed

lemma andThen_Inr:
  "andThen r f = Inr y \<Longrightarrow> \<exists>x. r = Inr x \<and> f x = Inr y"
  by (cases r) (simp_all add: andThen_def)


lemma slice_set_Inr:
  "slice_set xs i v = Inr ys \<Longrightarrow> 0 \<le> i \<and> i < int (length xs) \<and> ys = xs[nat i := v]"
  by (auto simp add: slice_set_def split: if_splits)

lemma SetFloat_Inr:
  "SetFloat t ix v = Inr t' \<Longrightarrow>
     0 \<le> Offset (Shp t) ix \<and> Offset (Shp t) ix < int (length (Values t))
     \<and> t' = t\<lparr>Values := (Values t)[nat (Offset (Shp t) ix) := v]\<rparr>"
  by (auto simp add: SetFloat_def andThen_def slice_set_def split: if_splits)

lemma Value_SetFloat_same: "SetFloat t ix v = Inr t' \<Longrightarrow> Value t' ix = Inr v"
  by (auto simp add: Value_def slice_get_def dest!: SetFloat_Inr)

lemma Value_SetFloat_other:
  "SetFloat t ix v = Inr t' \<Longrightarrow> Offset (Shp t) ix \<noteq> Offset (Shp t) jx \<Longrightarrow> Value t' jx = Value t jx"
  by (auto simp add: Value_def slice_get_def dest!: SetFloat_Inr)



section \<open>The circular pointer of the FIR filter\<close>

lemma int64_id: "is_int64 x \<Longrightarrow> int64 x = x"
  by (simp add: int64_def is_int64_def)

lemma Increment_mod:
  assumes "0 \<le> p" "p < n" "is_int64 n"
  shows "Increment p n = (p + 1) mod n"
proof -
  have "is_int64 (p + 1)" using assms by (simp add: is_int64_def)
  then have w: "int64 (p + 1) = p + 1" by (rule int64_id)
  show ?thesis
  proof (cases "p + 1 = n")
    case True
    then show ?thesis using w by (simp add: Increment_def)
  next
    case False
    then have "p + 1 < n" using assms by simp
    then show ?thesis using assms by (simp add: Increment_def w)
  qed
qed

text \<open>
  Claim C9.  For a modulus of at least 1 (a value of Go's \<open>int\<close>) and a pointer between
  0 and \<open>modulus - 1\<close>, \<open>Increment\<close> and \<open>Decrement\<close> both return a value between 0
  and \<open>modulus - 1\<close>, and each undoes the other.
\<close>

theorem Increment_Decrement_inverse:
  assumes "1 \<le> modulus" and "0 \<le> ptr" and "ptr \<le> modulus - 1" and "is_int64 modulus"
  shows "0 \<le> Increment ptr modulus \<and> Increment ptr modulus \<le> modulus - 1 \<and>
         0 \<le> Decrement ptr modulus \<and> Decrement ptr modulus \<le> modulus - 1 \<and>
         Decrement (Increment ptr modulus) modulus = ptr \<and>
         Increment (Decrement ptr modulus) modulus = ptr"
proof -
  have inc: "int64 (ptr + 1) = ptr + 1" and dec: "int64 (ptr - 1) = ptr - 1"
    and m1: "int64 (modulus - 1) = modulus - 1" and m: "int64 modulus = modulus"
    and z: "int64 (- 1) = - 1" and p: "int64 ptr = ptr"
    using assms by (simp_all add: int64_id is_int64_def)
  show ?thesis
    using assms inc dec m1 m z p
    by (auto simp add: Increment_def Decrement_def Let_def)
qed

theorem Increment_Decrement_inverse_witness:
  "0 \<le> Increment 4 5 \<and> Increment 4 5 \<le> 5 - 1 \<and>
   0 \<le> Decrement 4 5 \<and> Decrement 4 5 \<le> 5 - 1 \<and>
   Decrement (Increment 4 5) 5 = 4 \<and> Increment (Decrement 4 5) 5 = 4"
  using Increment_Decrement_inverse [of 5 4] by (simp add: is_int64_def)

section \<open>One sample through the FIR filter\<close>

text \<open>
  From tap \<open>i\<close> on, the tap loop reads \<open>Data\<close> and \<open>Coef\<close> only, and moves the pointer
  once around what is left of the circle.
\<close>

lemma Filter_taps_run:
  assumes "is_int64 (NTaps ff)" "int (length (Data ff)) = NTaps ff" "NTaps ff \<le> int (length (Coef ff))"
    "0 \<le> i" "i \<le> NTaps ff" "0 \<le> Ptr ff" "Ptr ff < NTaps ff"
  shows "\<exists>out. Filter_taps i acc ff = Inr (out, ff\<lparr>Ptr := (Ptr ff + (NTaps ff - i)) mod NTaps ff\<rparr>)"
  using assms
proof (induction i acc ff rule: Filter_taps.induct)
  case (1 i acc ff)
  show ?case
  proof (cases "i < NTaps ff")
    case False
    with 1 have "i = NTaps ff" by simp
    then show ?thesis using 1 by (subst Filter_taps.simps) simp
  next
    case True
    let ?ff = "ff\<lparr>Ptr := Increment (Ptr ff) (NTaps ff)\<rparr>"
    have inc: "Increment (Ptr ff) (NTaps ff) = (Ptr ff + 1) mod NTaps ff"
      using 1 by (simp add: Increment_mod)
    have d: "slice_get (Data ff) (Ptr ff) = Inr (Data ff ! nat (Ptr ff))"
      and c: "slice_get (Coef ff) i = Inr (Coef ff ! nat i)"
      using 1 True by (simp_all add: slice_get_def)
    have "\<exists>out. Filter_taps (i + 1) (acc + Data ff ! nat (Ptr ff) * Coef ff ! nat i) ?ff
            = Inr (out, ?ff\<lparr>Ptr := (Ptr ?ff + (NTaps ?ff - (i + 1))) mod NTaps ?ff\<rparr>)"
      using 1(2-) True by (intro "1.IH" [OF True d c]) (simp_all add: inc)
    moreover have "(Ptr ?ff + (NTaps ?ff - (i + 1))) mod NTaps ?ff = (Ptr ff + (NTaps ff - i)) mod NTaps ff"
    proof -
      have "((Ptr ff + 1) mod NTaps ff + (NTaps ff - (i + 1))) mod NTaps ff
              = ((Ptr ff + 1) + (NTaps ff - (i + 1))) mod NTaps ff"
        by (rule mod_add_left_eq)
      also have "(Ptr ff + 1) + (NTaps ff - (i + 1)) = Ptr ff + (NTaps ff - i)"
        by simp
      finally show ?thesis by (simp add: inc)
    qed
    ultimately show ?thesis
      using True by (subst Filter_taps.simps) (simp add: d c andThen_def)
  qed
qed

text \<open>
  Claim C10, as the source has it.  With \<open>NTaps\<close> at least 1, a data buffer of \<open>NTaps\<close>
  values, the pointer \<open>p0\<close> between 0 and \<open>NTaps - 1\<close> and at least \<open>NTaps\<close>
  coefficients, \<open>Filter\<close> has the same effect on the filter for both values of
  \<open>needOutput\<close>: \<open>input\<close> is stored at \<open>Data[p0]\<close>, no other entry of \<open>Data\<close> changes,
  and \<open>Ptr\<close> is left at \<open>Decrement(p0, NTaps)\<close>; without output the value returned
  is 0.
\<close>

theorem Filter_state_effect:
  assumes "1 \<le> NTaps ff" and "is_int64 (NTaps ff)"
    and "int (length (Data ff)) = NTaps ff"
    and "0 \<le> Ptr ff" and "Ptr ff \<le> NTaps ff - 1"
    and "NTaps ff \<le> int (length (Coef ff))"
  shows "Filter ff input False =
           Inr (0, ff\<lparr>Data := (Data ff)[nat (Ptr ff) := input],
                       Ptr := Decrement (Ptr ff) (NTaps ff)\<rparr>) \<and>
         (\<exists>output. Filter ff input True =
           Inr (output, ff\<lparr>Data := (Data ff)[nat (Ptr ff) := input],
                            Ptr := Decrement (Ptr ff) (NTaps ff)\<rparr>))"
proof -
  let ?d = "(Data ff)[nat (Ptr ff) := input]"
  have put: "slice_set (Data ff) (Ptr ff) input = Inr ?d"
    using assms by (simp add: slice_set_def)
  have no: "Filter ff input False =
      Inr (0, ff\<lparr>Data := ?d, Ptr := Decrement (Ptr ff) (NTaps ff)\<rparr>)"
    by (simp add: Filter_def put andThen_def)
  obtain out where run: "Filter_taps 0 0 (ff\<lparr>Data := ?d\<rparr>)
      = Inr (out, ff\<lparr>Data := ?d\<rparr>\<lparr>Ptr := (Ptr (ff\<lparr>Data := ?d\<rparr>) + (NTaps (ff\<lparr>Data := ?d\<rparr>) - 0)) mod NTaps (ff\<lparr>Data := ?d\<rparr>)\<rparr>)"
    using Filter_taps_run [of "ff\<lparr>Data := ?d\<rparr>" 0 0] assms by auto
  have wrap: "Ptr ff mod NTaps ff = Ptr ff"
    using assms by simp
  have "Filter ff input True =
      Inr (out, ff\<lparr>Data := ?d, Ptr := Decrement (Ptr ff) (NTaps ff)\<rparr>)"
    using run by (simp add: Filter_def put andThen_def wrap)
  with no show ?thesis by blast
qed

theorem Filter_state_effect_witness:
  "Filter \<lparr>Ptr = 1, NTaps = 2, Data = [3, 4], Coef = [1 / 2, 1 / 4]\<rparr> 7 False =
     Inr (0, \<lparr>Ptr = 0, NTaps = 2, Data = [3, 7], Coef = [1 / 2, 1 / 4]\<rparr>) \<and>
   (\<exists>output. Filter \<lparr>Ptr = 1, NTaps = 2, Data = [3, 4], Coef = [1 / 2, 1 / 4]\<rparr> 7 True =
     Inr (output, \<lparr>Ptr = 0, NTaps = 2, Data = [3, 7], Coef = [1 / 2, 1 / 4]\<rparr>))"
  using Filter_state_effect [of "\<lparr>Ptr = 1, NTaps = 2, Data = [3, 4], Coef = [1 / 2, 1 / 4]\<rparr>" 7]
  by (simp add: is_int64_def Decrement_def int64_def)

text \<open>
  The claim names no bound on \<open>Coef\<close>.  With a coefficient slice shorter than \<open>NTaps\<close>
  the call that needs the output reads \<open>ff.Coef[i]\<close> out of range and panics, where
  the call without output returns.
\<close>

theorem Filter_short_Coef_panics:
  "Filter \<lparr>Ptr = 0, NTaps = 1, Data = [0], Coef = []\<rparr> 1 True = Inl IndexOutOfRange"
  by (simp add: Filter_def Filter_taps.simps slice_set_def slice_get_def andThen_def)

section \<open>The FIR designer on a transition band out of range\<close>

lemma Trim_zero: "Trim ff cutoff 0 = Inr 0"
  by (simp add: Trim_def Trim_scan.simps)

text \<open>
  Claim C8 at \<open>beta = 0.6\<close>, above the Nyquist bound 0.5: \<open>MaximallyFlat\<close> leaves by
  its first guard with no coefficient and \<open>Init\<close> goes on to the end, for every filter,
  \<open>gamma\<close> and \<open>cutoff\<close>.  It returns as it does for a valid band: the coefficients
  are those the filter held before the call, and only \<open>Ptr\<close> is reset.
\<close>

theorem Init_beta_out_of_range:
  "Init ff (3 / 5) gamma cutoff = Inr (ff\<lparr>Ptr := 0\<rparr>)"
  by (simp add: Init_def MaximallyFlat_def andThen_def Trim_zero for_loop.simps)

section \<open>The weights of a mel filter\<close>

text \<open>
  Claim C1 on a bank of one filter with the scale points at the bins 0, 2 and 4 (what
  the first loop stores for 0 Hz to 380 Hz at 16 kHz and 201 FFT bins).  The table holds
  1 at the peak and 0 at every other bin: at the bins 1 and 3, half way up and half way
  down, a linear slope has the weight \<open>1/2\<close>.  The quotients \<open>(bin - mnbin) / pkmin\<close> and
  \<open>(mxbin - bin) / pkmax\<close> are taken on integers.
\<close>

theorem InitFilters_weights_not_linear:
  "map_sum id MelFilters
     (InitFilters_weights (Mel_zero\<lparr>MelPtsBin := [0, 2, 4], MelNFiltersEff := 3,
        MelFBank := MelFBank_zero\<lparr>NFilters := 1\<rparr>\<rparr>))
   = Inr \<lparr>Shp = [1, 5], Values = [0, 0, 1, 0, 0]\<rparr>"
  by (simp add: InitFilters_weights_def InitFilters_filter_def InitFilters_rise.simps
      InitFilters_fall.simps for_loop.simps andThen_def slice_get_def slice_set_def quo_def tdiv_def
      SetShape_def SetFloat_def Mel_zero_def MelFBank_zero_def tensor_zero_def Let_def
      eval_nat_numeral)

text \<open>The same scale points through the loops of \<open>InitFiltersMel\<close>.\<close>

lemma InitFiltersMel_filter_not_linear:
  "InitFiltersMel_filter [0, 2, 4] 0 \<lparr>Shp = [5, 1], Values = [0, 0, 0, 0, 0]\<rparr>
   = Inr \<lparr>Shp = [5, 1], Values = [0, 0, 1, 0, 0]\<rparr>"
  by (simp add: InitFiltersMel_filter_def InitFiltersMel_rise.simps InitFiltersMel_fall.simps
      andThen_def slice_get_def slice_set_def quo_def tdiv_def SetFloat_def trunc_def Let_def)

section \<open>Mel filters with a slope of no width\<close>

lemma tdiv_unit: "0 \<le> k \<Longrightarrow> k \<le> d \<Longrightarrow> 0 < d \<Longrightarrow> tdiv k d = (if k = d then 1 else 0)"
  by (simp add: tdiv_def sgn_if)

text \<open>
  The rising loop from \<open>bin\<close> on, for a peak above the first bin: it writes the cells of
  row \<open>f\<close> from \<open>bin\<close> up to the peak, each with its quotient of two integers (1 at the
  peak and 0 before it), and no other cell of the table.
\<close>

lemma InitFilters_rise_run:
  assumes "Shp filters = [n, w]" and "0 < pkbin - mnbin" and "0 \<le> f * w"
    and "f * w + (pkbin - mnbin) < int (length (Values filters))"
    and "mnbin \<le> bin" and "bin \<le> pkbin + 1"
  shows "\<exists>vs. InitFilters_rise f mnbin pkbin (pkbin - mnbin) (bin, bin - mnbin, filters)
              = Inr (pkbin + 1, pkbin + 1 - mnbin, filters\<lparr>Values := vs\<rparr>)
          \<and> length vs = length (Values filters)
          \<and> (\<forall>k. bin - mnbin \<le> k \<and> k \<le> pkbin - mnbin
                \<longrightarrow> vs ! nat (f * w + k) = (if k = pkbin - mnbin then 1 else 0))
          \<and> (\<forall>j. j < nat (f * w + (bin - mnbin)) \<or> nat (f * w + (pkbin - mnbin)) < j
                \<longrightarrow> vs ! j = Values filters ! j)"
  using assms
proof (induction "nat (pkbin + 1 - bin)" arbitrary: bin filters)
  case 0
  then have "bin = pkbin + 1" by simp
  then show ?case
    by (subst InitFilters_rise.simps) (auto intro!: exI [of _ "Values filters"])
next
  case (Suc m)
  then have le: "bin \<le> pkbin" by simp
  let ?k = "bin - mnbin"
  let ?q = "(if ?k = pkbin - mnbin then 1 else 0) :: int"
  let ?v = "of_int ?q :: real"
  let ?filters = "filters\<lparr>Values := (Values filters)[nat (f * w + ?k) := ?v]\<rparr>"
  have q: "quo ?k (pkbin - mnbin) = Inr ?q"
    using Suc.prems le by (simp add: quo_def tdiv_unit)
  have w: "SetFloat filters [f, ?k] ?v = Inr ?filters"
    using Suc.prems le by (simp add: SetFloat_def slice_set_def andThen_def)
  have e: "bin - mnbin + 1 = bin + 1 - mnbin" by simp
  have "InitFilters_rise f mnbin pkbin (pkbin - mnbin) (bin, ?k, filters)
      = InitFilters_rise f mnbin pkbin (pkbin - mnbin) (bin + 1, ?k + 1, ?filters)"
    by (subst InitFilters_rise.simps) (simp only: le if_True q w andThen_def sum.case Let_def)
  then have step: "InitFilters_rise f mnbin pkbin (pkbin - mnbin) (bin, ?k, filters)
      = InitFilters_rise f mnbin pkbin (pkbin - mnbin) (bin + 1, bin + 1 - mnbin, ?filters)"
    by (simp only: e)
  have m: "m = nat (pkbin + 1 - (bin + 1))" using Suc.hyps(2) by simp
  obtain vs where run: "InitFilters_rise f mnbin pkbin (pkbin - mnbin) (bin + 1, bin + 1 - mnbin, ?filters)
              = Inr (pkbin + 1, pkbin + 1 - mnbin, ?filters\<lparr>Values := vs\<rparr>)"
    and len: "length vs = length (Values ?filters)"
    and new: "\<forall>k. bin + 1 - mnbin \<le> k \<and> k \<le> pkbin - mnbin
                \<longrightarrow> vs ! nat (f * w + k) = (if k = pkbin - mnbin then 1 else 0)"
    and old: "\<forall>j. j < nat (f * w + (bin + 1 - mnbin)) \<or> nat (f * w + (pkbin - mnbin)) < j
                \<longrightarrow> vs ! j = Values ?filters ! j"
    using Suc.hyps(1) [OF m, of ?filters] Suc.prems le by auto
  have here: "vs ! nat (f * w + ?k) = ?v"
  proof -
    have "nat (f * w + ?k) < nat (f * w + (bin + 1 - mnbin))"
      using Suc.prems by simp
    then have "vs ! nat (f * w + ?k) = Values ?filters ! nat (f * w + ?k)"
      using old by blast
    also have "\<dots> = ?v" using Suc.prems le by simp
    finally show ?thesis .
  qed
  have new': "\<forall>k. ?k \<le> k \<and> k \<le> pkbin - mnbin
                \<longrightarrow> vs ! nat (f * w + k) = (if k = pkbin - mnbin then 1 else 0)"
  proof (intro allI impI)
    fix k assume k: "?k \<le> k \<and> k \<le> pkbin - mnbin"
    show "vs ! nat (f * w + k) = (if k = pkbin - mnbin then 1 else 0)"
    proof (cases "k = ?k")
      case True
      then show ?thesis using here by simp
    next
      case False
      then have "bin + 1 - mnbin \<le> k" using k by simp
      then show ?thesis using new k by blast
    qed
  qed
  have old': "\<forall>j. j < nat (f * w + ?k) \<or> nat (f * w + (pkbin - mnbin)) < j
                \<longrightarrow> vs ! j = Values filters ! j"
  proof (intro allI impI)
    fix j assume j: "j < nat (f * w + ?k) \<or> nat (f * w + (pkbin - mnbin)) < j"
    then have "j < nat (f * w + (bin + 1 - mnbin)) \<or> nat (f * w + (pkbin - mnbin)) < j" by auto
    then have "vs ! j = Values ?filters ! j" using old by blast
    moreover have "j \<noteq> nat (f * w + ?k)" using j le Suc.prems by auto
    ultimately show "vs ! j = Values filters ! j" by simp
  qed
  show ?case
    using step run len new' old' by (intro exI [of _ vs]) simp
qed

text \<open>
  Claim C5, as the source has it.  \<open>InitFilters\<close> has no check of the filter geometry
  and no error to return.  A filter whose falling slope has no width (\<open>maxBin = peakBin\<close>,
  with \<open>peakBin\<close> above \<open>minBin\<close>) is accepted: the falling loop has no bin to visit, so
  the divisor \<open>maxBin - peakBin\<close> is never used.  The filter is stored with the weight 1
  at its peak; no cell below its row or after its peak is written, and the loop over
  the filters goes on.
\<close>

theorem InitFilters_filter_accepts_flat_fall:
  assumes "slice_get ptsBin f = Inr mnbin" and "slice_get ptsBin (f + 1) = Inr pkbin"
    and "slice_get ptsBin (f + 2) = Inr mxbin"
    and "mnbin < pkbin" and "mxbin = pkbin"
    and "Shp filters = [n, w]" and "0 \<le> w"
    and "f * w + (pkbin - mnbin) < int (length (Values filters))"
  shows "\<exists>vs. InitFilters_filter ptsBin f filters = Inr (filters\<lparr>Values := vs\<rparr>)
          \<and> length vs = length (Values filters)
          \<and> vs ! nat (f * w + (pkbin - mnbin)) = 1
          \<and> (\<forall>j. j < nat (f * w) \<or> nat (f * w + (pkbin - mnbin)) < j
                \<longrightarrow> vs ! j = Values filters ! j)"
proof -
  have f0: "0 \<le> f" using assms(1) by (simp add: slice_get_def split: if_splits)
  then have fw: "0 \<le> f * w" using assms(7) by simp
  have pos: "0 < pkbin - mnbin" and le1: "mnbin \<le> mnbin" and le2: "mnbin \<le> pkbin + 1"
    using assms(4) by simp_all
  from InitFilters_rise_run [OF assms(6) pos fw assms(8) le1 le2]
  obtain vs where run: "InitFilters_rise f mnbin pkbin (pkbin - mnbin) (mnbin, mnbin - mnbin, filters)
              = Inr (pkbin + 1, pkbin + 1 - mnbin, filters\<lparr>Values := vs\<rparr>)"
    and len: "length vs = length (Values filters)"
    and new: "\<forall>k. mnbin - mnbin \<le> k \<and> k \<le> pkbin - mnbin
                \<longrightarrow> vs ! nat (f * w + k) = (if k = pkbin - mnbin then 1 else 0)"
    and old: "\<forall>j. j < nat (f * w + (mnbin - mnbin)) \<or> nat (f * w + (pkbin - mnbin)) < j
                \<longrightarrow> vs ! j = Values filters ! j"
    by blast
  have fall: "InitFilters_fall f mxbin (mxbin - pkbin) (pkbin + 1, pkbin + 1 - mnbin, filters\<lparr>Values := vs\<rparr>)
      = Inr (pkbin + 1, pkbin + 1 - mnbin, filters\<lparr>Values := vs\<rparr>)"
    using assms(5) by (subst InitFilters_fall.simps) simp
  have run0: "InitFilters_rise f mnbin pkbin (pkbin - mnbin) (mnbin, 0, filters)
              = Inr (pkbin + 1, pkbin + 1 - mnbin, filters\<lparr>Values := vs\<rparr>)"
    using run by simp
  have res: "InitFilters_filter ptsBin f filters = Inr (filters\<lparr>Values := vs\<rparr>)"
    by (simp add: InitFilters_filter_def assms(1-3) andThen_def Let_def run0 fall)
  have "mnbin - mnbin \<le> pkbin - mnbin \<and> pkbin - mnbin \<le> pkbin - mnbin"
    using assms(4) by simp
  with new have one: "vs ! nat (f * w + (pkbin - mnbin)) = (if pkbin - mnbin = pkbin - mnbin then 1 else 0)"
    by blast
  have frame: "\<forall>j. j < nat (f * w) \<or> nat (f * w + (pkbin - mnbin)) < j
                \<longrightarrow> vs ! j = Values filters ! j"
    using old by simp
  show ?thesis
    using res len one frame by (intro exI [of _ vs]) simp
qed

theorem InitFilters_filter_accepts_flat_fall_witness:
  "\<exists>vs. InitFilters_filter [0, 2, 2] 0 \<lparr>Shp = [2, 3], Values = [7, 7, 7, 7, 7, 7]\<rparr>
           = Inr \<lparr>Shp = [2, 3], Values = vs\<rparr>
          \<and> length vs = 6 \<and> vs ! 2 = 1 \<and> vs ! 3 = 7"
proof -
  let ?t = "\<lparr>Shp = [2, 3], Values = [7, 7, 7, 7, 7, 7 :: real]\<rparr>"
  have h: "slice_get [0, 2, 2 :: int] 0 = Inr 0" "slice_get [0, 2, 2 :: int] (0 + 1) = Inr 2"
    "slice_get [0, 2, 2 :: int] (0 + 2) = Inr 2" "(0 :: int) < 2" "(2 :: int) = 2"
    "Shp ?t = [2, 3]" "(0 :: int) \<le> 3" "0 * 3 + (2 - 0) < int (length (Values ?t))"
    by (simp_all add: slice_get_def)
  from InitFilters_filter_accepts_flat_fall [OF h]
  obtain vs where a: "InitFilters_filter [0, 2, 2] 0 ?t = Inr (?t\<lparr>Values := vs\<rparr>)"
    and b: "length vs = length (Values ?t)"
    and c: "vs ! nat (0 * 3 + (2 - 0)) = 1"
    and d: "\<forall>j. j < nat (0 * 3) \<or> nat (0 * 3 + (2 - 0)) < j \<longrightarrow> vs ! j = Values ?t ! j"
    by blast
  from d have "3 < nat (0 * 3) \<or> nat (0 * 3 + (2 - 0)) < 3 \<longrightarrow> vs ! 3 = Values ?t ! 3"
    by (rule spec)
  then have d3: "vs ! 3 = 7" by simp
  from a b c d3 show ?thesis by (intro exI [of _ vs]) simp
qed

text \<open>
  A bank of one such filter, with the scale points at the bins 0, 1 and 1, goes through
  the whole of the second half of \<open>InitFilters\<close>: nothing is rejected.
\<close>

theorem InitFilters_weights_accepts_degenerate:
  "map_sum id MelFilters
     (InitFilters_weights (Mel_zero\<lparr>MelPtsBin := [0, 1, 1], MelNFiltersEff := 3,
        MelFBank := MelFBank_zero\<lparr>NFilters := 1\<rparr>\<rparr>))
   = Inr \<lparr>Shp = [1, 2], Values = [0, 1]\<rparr>"
  by (simp add: InitFilters_weights_def InitFilters_filter_def InitFilters_rise.simps
      InitFilters_fall.simps for_loop.simps andThen_def slice_get_def slice_set_def quo_def tdiv_def
      SetShape_def SetFloat_def Mel_zero_def MelFBank_zero_def tensor_zero_def Let_def
      eval_nat_numeral)

text \<open>
  A rising slope of no width stops the filter at its first quotient, by the panic of the
  integer division.
\<close>

lemma InitFilters_filter_flat_rise_panics:
  assumes "slice_get ptsBin f = Inr mnbin" and "slice_get ptsBin (f + 1) = Inr mnbin"
    and "slice_get ptsBin (f + 2) = Inr mxbin"
  shows "InitFilters_filter ptsBin f filters = Inl DivideByZero"
  by (simp add: InitFilters_filter_def assms andThen_def Let_def InitFilters_rise.simps quo_def)

section \<open>The energy of a mel filter\<close>




lemma MelFilterDft_filter_Inr:
  assumes "MelFilterDft_filter ch step p i m = Inr m'"
  shows "\<exists>minBin maxBin acc fi out t.
           slice_get (MelPtsBin m) i = Inr minBin \<and> slice_get (MelPtsBin m) (i + 2) = Inr maxBin
         \<and> MelFilterDft_sum m i minBin maxBin p = Inr (acc, fi)
         \<and> slice_set (MelFBankOut m) i (MelFilterDft_val (MelFBank m) acc) = Inr out
         \<and> SetFloat (MelFBankTrialOut m) [i, step, ch] (MelFilterDft_val (MelFBank m) acc) = Inr t
         \<and> m' = m\<lparr>MelFBankOut := out, MelFBankTrialOut := t\<rparr>"
  using assms
  by (auto simp add: MelFilterDft_filter_def andThen_def Let_def split: sum.splits prod.splits)



section \<open>A trial with no step of input left\<close>

text \<open>
  Claim C3, as the source has it.  \<open>ProcessTrial\<close> tests \<open>InputStepsLeft()\<close> after the
  initialization that it runs when \<open>NeedsInit()\<close> holds.  On an analyzer that needs no
  initialization, when \<open>InputStepsLeft()\<close> is below 1, \<open>ProcessTrial\<close> returns false and
  leaves the analyzer as it was, all trial tensors and the input position included: only
  the row that \<open>AddRows(1)\<close> added to the table before the test is new.  The caller can
  load more sound and call again.
\<close>

theorem ProcessTrial_insufficient_input:
  assumes "\<not> NeedsInit ap" and "InputStepsLeft ap = Inr n" and "n < 1"
  shows "ProcessTrial ev ap = Inr (False, ap\<lparr>DataRows := DataRows ap + 1\<rparr>)"
proof -
  have "InputStepsLeft (ap\<lparr>DataRows := DataRows ap + 1\<rparr>) = InputStepsLeft ap"
    by (simp add: InputStepsLeft_def)
  then show ?thesis
    using assms by (simp add: ProcessTrial_def andThen_def Let_def)
qed

theorem ProcessTrial_insufficient_input_witness:
  "ProcessTrial
     \<lparr>Initialize = Inr, dct = (\<lambda>xs. xs), DftPowerOut = (\<lambda>ap. []), Inhib = (\<lambda>xs. xs),
      MelOutputToTable = (\<lambda>ap ch fmtOnly. Inr ())\<rparr>
     (AuditoryProc_zero\<lparr>
        Mel := Mel_zero\<lparr>DftSize := 400, MelNFiltersEff := 34,
                 MelFBank := MelFBank_zero\<lparr>NFilters := 32\<rparr>\<rparr>,
        Input := Input_zero\<lparr>WinSamples := 400, StepSamples := 80\<rparr>,
        SoundFull := \<lparr>Shp = [100], Values = replicate 100 0\<rparr>,
        InputPos := 80\<rparr>)
   = Inr (False,
      AuditoryProc_zero\<lparr>
        Mel := Mel_zero\<lparr>DftSize := 400, MelNFiltersEff := 34,
                 MelFBank := MelFBank_zero\<lparr>NFilters := 32\<rparr>\<rparr>,
        Input := Input_zero\<lparr>WinSamples := 400, StepSamples := 80\<rparr>,
        SoundFull := \<lparr>Shp = [100], Values = replicate 100 0\<rparr>,
        InputPos := 80, DataRows := 1\<rparr>)"
proof -
  let ?ap = "AuditoryProc_zero\<lparr>
        Mel := Mel_zero\<lparr>DftSize := 400, MelNFiltersEff := 34,
                 MelFBank := MelFBank_zero\<lparr>NFilters := 32\<rparr>\<rparr>,
        Input := Input_zero\<lparr>WinSamples := 400, StepSamples := 80\<rparr>,
        SoundFull := \<lparr>Shp = [100], Values = replicate 100 0\<rparr>,
        InputPos := 80\<rparr>"
  have a: "\<not> NeedsInit ?ap"
    by (simp add: NeedsInit_def AuditoryProc_zero_def Mel_zero_def MelFBank_zero_def Input_zero_def)
  have b: "InputStepsLeft ?ap = Inr 0"
    by (simp add: InputStepsLeft_def quo_def tdiv_def AuditoryProc_zero_def Input_zero_def)
  have c: "(0 :: int) < 1" by simp
  show ?thesis
    using ProcessTrial_insufficient_input [OF a b c] by (simp add: AuditoryProc_zero_def)
qed

text \<open>
  An analyzer that needs initialization is first initialized, and the test is made on
  the analyzer that \<open>Initialize\<close> returns: when a step of input is left there, a call of
  \<open>ProcessTrial\<close> that returns has returned true, whatever was left before the call.
\<close>

lemma ProcessTrial_after_Initialize:
  assumes "NeedsInit ap" and "Initialize ev ap = Inr ap1"
    and "InputStepsLeft ap1 = Inr n" and "1 \<le> n"
    and "ProcessTrial ev ap = Inr (r, ap')"
  shows "r = True"
proof -
  have l: "InputStepsLeft (ap1\<lparr>DataRows := DataRows ap1 + 1\<rparr>) = Inr n"
    using assms(3) by (simp add: InputStepsLeft_def)
  show ?thesis
    using assms(1,2,4,5) l
    by (auto simp add: ProcessTrial_def andThen_def Let_def split: if_splits sum.splits)
qed

text \<open>
  An analyzer at the end of a sound of ten samples, so that \<open>InputStepsLeft()\<close> is 0, whose
  \<open>DftSize\<close> is not \<open>WinSamples\<close>, so that \<open>NeedsInit()\<close> holds.  \<open>Initialize\<close> is taken as
  \<open>InitSound\<close> alone, which puts \<open>InputPos\<close> back to 0: ten steps are left then, and
  \<open>ProcessTrial\<close> computes the three steps of a first trial over the trial tensor and
  returns true.
\<close>

theorem ProcessTrial_reinitialized:
  "NeedsInit
     (AuditoryProc_zero\<lparr>
        Mel := Mel_zero\<lparr>MelPtsBin := [0, 1, 2],
                 MelFilters := \<lparr>Shp = [1, 3], Values = [0, 1, 0]\<rparr>,
                 MelNFiltersEff := 3,
                 MelFBank := MelFBank_zero\<lparr>MelOn := True, NFilters := 1, LogMin := - 10,
                   FBankRenorm := \<lparr>RenormOn = True, RenormMin = - 5, RenormMax = 9,
                                   RenormScale = 1 / 14\<rparr>\<rparr>,
                 MelFBankOut := [0],
                 MelFBankTrialOut := \<lparr>Shp = [1, 3, 1], Values = [1 / 4, 1 / 2, 3 / 4]\<rparr>\<rparr>,
        Input := Input_zero\<lparr>WinSamples := 2, StepSamples := 1, TrialSamples := 1, TrialSteps := 1,
                   TotalSteps := 3, BorderSteps := 1, Channels := 1\<rparr>,
        SoundFull := \<lparr>Shp = [10], Values = [0, 0, 0, 0, 0, 0, 0, 0, 0, 0]\<rparr>,
        WindowIn := [0, 0],
        InputPos := 10\<rparr>)
   \<and> InputStepsLeft
     (AuditoryProc_zero\<lparr>
        Mel := Mel_zero\<lparr>MelPtsBin := [0, 1, 2],
                 MelFilters := \<lparr>Shp = [1, 3], Values = [0, 1, 0]\<rparr>,
                 MelNFiltersEff := 3,
                 MelFBank := MelFBank_zero\<lparr>MelOn := True, NFilters := 1, LogMin := - 10,
                   FBankRenorm := \<lparr>RenormOn = True, RenormMin = - 5, RenormMax = 9,
                                   RenormScale = 1 / 14\<rparr>\<rparr>,
                 MelFBankOut := [0],
                 MelFBankTrialOut := \<lparr>Shp = [1, 3, 1], Values = [1 / 4, 1 / 2, 3 / 4]\<rparr>\<rparr>,
        Input := Input_zero\<lparr>WinSamples := 2, StepSamples := 1, TrialSamples := 1, TrialSteps := 1,
                   TotalSteps := 3, BorderSteps := 1, Channels := 1\<rparr>,
        SoundFull := \<lparr>Shp = [10], Values = [0, 0, 0, 0, 0, 0, 0, 0, 0, 0]\<rparr>,
        WindowIn := [0, 0],
        InputPos := 10\<rparr>) = Inr 0
   \<and> ProcessTrial
     \<lparr>Initialize = (\<lambda>ap. Inr (InitSound ap)), dct = (\<lambda>xs. xs), DftPowerOut = (\<lambda>ap. [0, 1]),
      Inhib = (\<lambda>xs. xs), MelOutputToTable = (\<lambda>ap ch fmtOnly. Inr ())\<rparr>
     (AuditoryProc_zero\<lparr>
        Mel := Mel_zero\<lparr>MelPtsBin := [0, 1, 2],
                 MelFilters := \<lparr>Shp = [1, 3], Values = [0, 1, 0]\<rparr>,
                 MelNFiltersEff := 3,
                 MelFBank := MelFBank_zero\<lparr>MelOn := True, NFilters := 1, LogMin := - 10,
                   FBankRenorm := \<lparr>RenormOn = True, RenormMin = - 5, RenormMax = 9,
                                   RenormScale = 1 / 14\<rparr>\<rparr>,
                 MelFBankOut := [0],
                 MelFBankTrialOut := \<lparr>Shp = [1, 3, 1], Values = [1 / 4, 1 / 2, 3 / 4]\<rparr>\<rparr>,
        Input := Input_zero\<lparr>WinSamples := 2, StepSamples := 1, TrialSamples := 1, TrialSteps := 1,
                   TotalSteps := 3, BorderSteps := 1, Channels := 1\<rparr>,
        SoundFull := \<lparr>Shp = [10], Values = [0, 0, 0, 0, 0, 0, 0, 0, 0, 0]\<rparr>,
        WindowIn := [0, 0],
        InputPos := 10\<rparr>)
   = Inr (True,
      AuditoryProc_zero\<lparr>
        Mel := Mel_zero\<lparr>MelPtsBin := [0, 1, 2],
                 MelFilters := \<lparr>Shp = [1, 3], Values = [0, 1, 0]\<rparr>,
                 MelNFiltersEff := 3,
                 MelFBank := MelFBank_zero\<lparr>MelOn := True, NFilters := 1, LogMin := - 10,
                   FBankRenorm := \<lparr>RenormOn = True, RenormMin = - 5, RenormMax = 9,
                                   RenormScale = 1 / 14\<rparr>\<rparr>,
                 MelFBankOut := [5 / 14],
                 MelFBankTrialOut := \<lparr>Shp = [1, 3, 1], Values = [5 / 14, 5 / 14, 5 / 14]\<rparr>\<rparr>,
        DataRows := 1,
        Input := Input_zero\<lparr>WinSamples := 2, StepSamples := 1, TrialSamples := 1, TrialSteps := 1,
                   TotalSteps := 3, BorderSteps := 1, Channels := 1\<rparr>,
        InputPos := 3, TrialStartPos := 0, TrialEndPos := 5,
        SoundFull := \<lparr>Shp = [10], Values = [0, 0, 0, 0, 0, 0, 0, 0, 0, 0]\<rparr>,
        WindowIn := [0, 0]\<rparr>)"
  by (simp add: ProcessTrial_def ProcessTrial_first_def NeedsInit_def InputStepsLeft_def InitSound_def
        ProcessStep_def SoundToWindow_def FilterWindow_def MelFilterDft_def MelFilterDft_filter_def
        MelFilterDft_sum_def MelFilterDft_val_def FilterTrial_def OutputToTable_def
        for_loop.simps andThen_def slice_get_def slice_set_def slice_range_def copy_slice_def
        quo_def tdiv_def SetFloat_def Value_def
        AuditoryProc_zero_def Mel_zero_def MelFBank_zero_def Input_zero_def Gabor_zero_def
        tensor_zero_def Let_def)

section \<open>The bound check of the gabor taps\<close>

text \<open>
  Claim C6 on output tensors allocated for one time tap (\<open>Dim(4) = 1\<close>, as for a stride
  of 2 over 2 steps) and a filter that is applied with a stride of 1, over two channels.
  The second time tap has \<open>tIdx = 1\<close>, outside the extent of its axis; the guard
  \<open>tIdx > outRaw.Dim(4)\<close> lets it pass, and its two writes for channel 0 land on the
  cell of the other sign of the first tap and on the first cell of channel 1: of the
  values \<open>[9, 9, 9, 9]\<close>, channel 0 overwrites three and leaves its own first tap with
  the activation 6 of the second.
\<close>

theorem GaborFilter_writes_past_extent:
  "GaborFilter ev
     (AuditoryProc_zero\<lparr>
        Mel := Mel_zero\<lparr>MelFBank := MelFBank_zero\<lparr>NFilters := 2\<rparr>,
                 MelFBankTrialOut := \<lparr>Shp = [2, 2, 2], Values = [0, 0, 3, 0, 0, 0, 0, 0]\<rparr>\<rparr>,
        Input := Input_zero\<lparr>TrialSteps := 2, TotalSteps := 2, Channels := 2\<rparr>\<rparr>)
     0
     \<lparr>GaborOn = True, SizeTime = 1, SizeFreq = 1, SpaceTime = 1, SpaceFreq = 1, Gain = 2,
       GaborNFilters = 1, ShapeX = 1, ShapeY = 1\<rparr>
     \<lparr>Shp = [1, 1, 1], Values = [1]\<rparr>
     \<lparr>Shp = [2, 1, 2, 1, 1], Values = [9, 9, 9, 9]\<rparr>
     \<lparr>Shp = [2, 1, 2, 1, 1], Values = [9, 9, 9, 9]\<rparr>
   = Inr (\<lparr>Shp = [2, 1, 2, 1, 1], Values = [0, 6, 0, 9]\<rparr>,
          \<lparr>Shp = [2, 1, 2, 1, 1], Values = [0, 6, 0, 9]\<rparr>)"
  by (simp add: GaborFilter_def GaborFilter_time.simps GaborFilter_freq.simps GaborFilter_tap_def
      GaborFilter_sum_def for_loop.simps andThen_def slice_get_def slice_set_def SetFloat_def
      Value_def tdiv_def AuditoryProc_zero_def Mel_zero_def MelFBank_zero_def Input_zero_def
      Let_def)

text \<open>
  With one channel the second of these writes is past the end of the slice, and the
  call ends in a panic.
\<close>

lemma GaborFilter_panics_past_extent:
  "GaborFilter ev
     (AuditoryProc_zero\<lparr>
        Mel := Mel_zero\<lparr>MelFBank := MelFBank_zero\<lparr>NFilters := 2\<rparr>,
                 MelFBankTrialOut := \<lparr>Shp = [2, 2, 1], Values = [0, 3, 0, 0]\<rparr>\<rparr>,
        Input := Input_zero\<lparr>TrialSteps := 2, TotalSteps := 2, Channels := 1\<rparr>\<rparr>)
     0
     \<lparr>GaborOn = True, SizeTime = 1, SizeFreq = 1, SpaceTime = 1, SpaceFreq = 1, Gain = 2,
       GaborNFilters = 1, ShapeX = 1, ShapeY = 1\<rparr>
     \<lparr>Shp = [1, 1, 1], Values = [1]\<rparr>
     \<lparr>Shp = [1, 1, 2, 1, 1], Values = [9, 9]\<rparr>
     \<lparr>Shp = [1, 1, 2, 1, 1], Values = [9, 9]\<rparr>
   = Inl IndexOutOfRange"
  by (simp add: GaborFilter_def GaborFilter_time.simps GaborFilter_freq.simps GaborFilter_tap_def
      GaborFilter_sum_def for_loop.simps andThen_def slice_get_def slice_set_def SetFloat_def
      Value_def tdiv_def AuditoryProc_zero_def Mel_zero_def MelFBank_zero_def Input_zero_def
      Let_def)

section \<open>The border of the next trial\<close>

text \<open>
  The offset of a cell \<open>[i, s, c]\<close> determines the cell, for a step and a channel inside
  the shape.
\<close>

lemma div_mod_digit:
  fixes C :: int
  assumes "0 \<le> b" "b < C"
  shows "(a * C + b) mod C = b" and "(a * C + b) div C = a"
  using assms by simp_all

lemma Offset3_inj:
  fixes T C :: int
  assumes "0 \<le> s" "s < T" "0 \<le> c" "c < C" "0 \<le> s'" "s' < T" "0 \<le> c'" "c' < C"
    and eq: "(i * T + s) * C + c = (i' * T + s') * C + c'"
  shows "i = i' \<and> s = s' \<and> c = c'"
proof -
  have "c = ((i * T + s) * C + c) mod C"
    by (rule div_mod_digit(1) [symmetric]) fact+
  also have "\<dots> = ((i' * T + s') * C + c') mod C" by (simp only: eq)
  also have "\<dots> = c'" by (rule div_mod_digit(1)) fact+
  finally have c: "c = c'" .
  have "i * T + s = ((i * T + s) * C + c) div C"
    by (rule div_mod_digit(2) [symmetric]) fact+
  also have "\<dots> = ((i' * T + s') * C + c') div C" by (simp only: eq)
  also have "\<dots> = i' * T + s'" by (rule div_mod_digit(2)) fact+
  finally have e2: "i * T + s = i' * T + s'" .
  have "s = (i * T + s) mod T" by (rule div_mod_digit(1) [symmetric]) fact+
  also have "\<dots> = (i' * T + s') mod T" by (simp only: e2)
  also have "\<dots> = s'" by (rule div_mod_digit(1)) fact+
  finally have s: "s = s'" .
  have "i = (i * T + s) div T" by (rule div_mod_digit(2) [symmetric]) fact+
  also have "\<dots> = (i' * T + s') div T" by (simp only: e2)
  also have "\<dots> = i'" by (rule div_mod_digit(2)) fact+
  finally have "i = i'" .
  with c s show ?thesis by simp
qed

lemma keeps_refl: "keeps T C W t t"
  by (simp add: keeps_def)

lemma keeps_trans:
  assumes "keeps T C W t t'" and "keeps T C W' t' t''"
  shows "keeps T C (\<lambda>i s c. W i s c \<or> W' i s c) t t''"
  using assms unfolding keeps_def by (metis (no_types, lifting))

lemma keeps_weaken:
  assumes "keeps T C W t t'" and "\<And>i s c. W i s c \<Longrightarrow> W' i s c"
  shows "keeps T C W' t t'"
  using assms unfolding keeps_def by blast

lemma keepsD:
  assumes "keeps T C W t t'" and "0 \<le> s" "s < T" "0 \<le> c" "c < C" "\<not> W i s c"
  shows "Value t' [i, s, c] = Value t [i, s, c]"
  using assms unfolding keeps_def by blast

lemma keeps_Shp: "keeps T C W t t' \<Longrightarrow> Shp t' = Shp t"
  by (simp add: keeps_def)

lemma SetFloat_keeps:
  assumes w: "SetFloat t [k, step, ch] v = Inr t'" and shp: "Shp t = [n0, T, C]"
    and r: "0 \<le> step" "step < T" "0 \<le> ch" "ch < C"
  shows "keeps T C (\<lambda>i s c. i = k \<and> s = step \<and> c = ch) t t'"
  unfolding keeps_def
proof (intro conjI allI impI)
  show "Shp t' = Shp t" using SetFloat_Inr [OF w] by simp
next
  fix i s c
  assume a: "0 \<le> s \<and> s < T \<and> 0 \<le> c \<and> c < C \<and> \<not> (i = k \<and> s = step \<and> c = ch)"
  have "Offset (Shp t) [k, step, ch] \<noteq> Offset (Shp t) [i, s, c]"
    using Offset3_inj [of step T ch C s c k i] a r shp by auto
  then show "Value t' [i, s, c] = Value t [i, s, c]"
    by (rule Value_SetFloat_other [OF w])
qed

text \<open>
  What one step writes: \<open>MelFilterDft\<close> writes the cells of its own step and channel and
  no other cell of the trial tensor; the cepstrum, the window and the gabor filters
  leave the tensor alone.
\<close>

lemma MelFilterDft_frame:
  assumes run: "MelFilterDft mel ch step p = Inr mel'"
    and shp: "Shp (MelFBankTrialOut mel) = [n0, T, C]"
    and r: "0 \<le> step" "step < T" "0 \<le> ch" "ch < C"
  shows "MelFBank mel' = MelFBank mel
       \<and> keeps T C (\<lambda>i s c. s = step \<and> c = ch) (MelFBankTrialOut mel) (MelFBankTrialOut mel')"
proof (cases "0 \<le> NFilters (MelFBank mel)")
  case False
  then have "mel' = mel" using run by (simp add: MelFilterDft_def for_loop_done)
  then show ?thesis by (simp add: keeps_refl)
next
  case True
  let ?P = "\<lambda>(i :: int) m. MelFBank m = MelFBank mel
      \<and> keeps T C (\<lambda>i s c. s = step \<and> c = ch) (MelFBankTrialOut mel) (MelFBankTrialOut m)"
  have run': "for_loop 0 (NFilters (MelFBank mel)) (MelFilterDft_filter ch step p) mel = Inr mel'"
    using run by (simp add: MelFilterDft_def)
  have "?P (NFilters (MelFBank mel)) mel'"
  proof (rule for_loop_invariant [where P = ?P, OF run' _ True])
    show "?P 0 mel" by (simp add: keeps_refl)
  next
    fix i m m'
    assume inv: "?P i m" and b: "MelFilterDft_filter ch step p i m = Inr m'"
    from MelFilterDft_filter_Inr [OF b] obtain acc out t where
      wr: "SetFloat (MelFBankTrialOut m) [i, step, ch] (MelFilterDft_val (MelFBank m) acc) = Inr t"
      and m': "m' = m\<lparr>MelFBankOut := out, MelFBankTrialOut := t\<rparr>"
      by blast
    have "Shp (MelFBankTrialOut m) = [n0, T, C]" using inv shp by (simp add: keeps_def)
    from SetFloat_keeps [OF wr this r]
    have "keeps T C (\<lambda>j s c. j = i \<and> s = step \<and> c = ch) (MelFBankTrialOut m) t" .
    then have "keeps T C (\<lambda>i s c. s = step \<and> c = ch) (MelFBankTrialOut m) t"
      by (rule keeps_weaken) simp
    with inv have "keeps T C (\<lambda>i s c. (s = step \<and> c = ch) \<or> (s = step \<and> c = ch))
        (MelFBankTrialOut mel) t"
      by (intro keeps_trans) simp_all
    then have "keeps T C (\<lambda>i s c. s = step \<and> c = ch) (MelFBankTrialOut mel) t"
      by (rule keeps_weaken) simp
    then show "?P (i + 1) m'" using inv m' by simp
  qed
  then show ?thesis by simp
qed

lemma CepstrumDctMel_frame:
  assumes "CepstrumDctMel d mel ch step = Inr mel'"
  shows "MelFBank mel' = MelFBank mel \<and> MelFBankTrialOut mel' = MelFBankTrialOut mel"
  using assms
  by (auto simp add: CepstrumDctMel_def andThen_def Let_def split: sum.splits)

lemma FilterWindow_frame:
  assumes run: "FilterWindow d mel ch step w p fs = Inr mel'"
    and shp: "Shp (MelFBankTrialOut mel) = [n0, T, C]"
    and r: "0 \<le> step" "step < T" "0 \<le> ch" "ch < C"
  shows "MelFBank mel' = MelFBank mel
       \<and> keeps T C (\<lambda>i s c. s = step \<and> c = ch) (MelFBankTrialOut mel) (MelFBankTrialOut mel')"
proof (cases "MelOn (MelFBank mel)")
  case False
  then have "mel' = mel" using run by (simp add: FilterWindow_def)
  then show ?thesis by (simp add: keeps_refl)
next
  case True
  from run True obtain m1 where a: "MelFilterDft mel ch step p = Inr m1"
    and b: "(if MfccOn (Mfcc m1) then CepstrumDctMel d m1 ch step else Inr m1) = Inr mel'"
    by (auto simp add: FilterWindow_def dest: andThen_Inr)
  from b have "MelFBank mel' = MelFBank m1 \<and> MelFBankTrialOut mel' = MelFBankTrialOut m1"
    using CepstrumDctMel_frame [of d m1 ch step mel'] by (auto split: if_splits)
  then show ?thesis using MelFilterDft_frame [OF a shp r] by simp
qed

lemma SoundToWindow_frame:
  assumes "SoundToWindow ap inPos ch = Inr ap'"
  shows "Mel ap' = Mel ap \<and> Input ap' = Input ap"
  using assms
  by (auto simp add: SoundToWindow_def andThen_def Let_def split: sum.splits if_splits)

lemma ProcessStep_frame:
  assumes run: "ProcessStep ev ap ch step = Inr ap'"
    and shp: "Shp (MelFBankTrialOut (Mel ap)) = [n0, T, C]"
    and r: "0 \<le> step" "step < T" "0 \<le> ch" "ch < C"
  shows "Input ap' = Input ap \<and> MelFBank (Mel ap') = MelFBank (Mel ap)
       \<and> keeps T C (\<lambda>i s c. s = step \<and> c = ch)
            (MelFBankTrialOut (Mel ap)) (MelFBankTrialOut (Mel ap'))"
proof -
  from andThen_Inr [OF run [unfolded ProcessStep_def]] obtain a1 where
    s: "SoundToWindow ap (InputPos ap) ch = Inr a1"
    and f: "andThen (FilterWindow (dct ev) (Mel a1) ch step (WindowIn a1) (DftPowerOut ev a1) (FirstStep a1))
              (\<lambda>mel. let ap = a1\<lparr>Mel := mel\<rparr>;
                         ap = ap\<lparr>InputPos := InputPos ap + StepSamples (Input ap)\<rparr>
                     in Inr (ap\<lparr>FirstStep := False\<rparr>)) = Inr ap'"
    by blast
  from andThen_Inr [OF f] obtain mel where
    fw: "FilterWindow (dct ev) (Mel a1) ch step (WindowIn a1) (DftPowerOut ev a1) (FirstStep a1) = Inr mel"
    and ap': "ap' = a1\<lparr>Mel := mel, InputPos := InputPos a1 + StepSamples (Input a1), FirstStep := False\<rparr>"
    by (auto simp add: Let_def)
  have a1: "Mel a1 = Mel ap" "Input a1 = Input ap" using SoundToWindow_frame [OF s] by simp_all
  have "Shp (MelFBankTrialOut (Mel a1)) = [n0, T, C]" using shp a1 by simp
  from FilterWindow_frame [OF fw this r] show ?thesis using a1 ap' by simp
qed

lemma steps_frame:
  assumes run: "for_loop a T (\<lambda>s ap. ProcessStep ev ap ch s) ap = Inr ap'"
    and shp: "Shp (MelFBankTrialOut (Mel ap)) = [n0, T, C]"
    and r: "0 \<le> a" "0 \<le> ch" "ch < C"
  shows "Input ap' = Input ap \<and> MelFBank (Mel ap') = MelFBank (Mel ap)
       \<and> keeps T C (\<lambda>i s c. a \<le> s \<and> c = ch)
            (MelFBankTrialOut (Mel ap)) (MelFBankTrialOut (Mel ap'))"
proof (cases "a \<le> T")
  case False
  then have "ap' = ap" using run by (simp add: for_loop_done)
  then show ?thesis by (simp add: keeps_refl)
next
  case True
  let ?W = "\<lambda>(i :: int) s c. a \<le> s \<and> c = ch"
  let ?P = "\<lambda>(k :: int) x. Input x = Input ap \<and> MelFBank (Mel x) = MelFBank (Mel ap)
      \<and> keeps T C ?W (MelFBankTrialOut (Mel ap)) (MelFBankTrialOut (Mel x))"
  have "?P T ap'"
  proof (rule for_loop_invariant [where P = ?P, OF run _ True])
    show "?P a ap" by (simp add: keeps_refl)
  next
    fix k x x'
    assume k: "a \<le> k" "k < T" and inv: "?P k x" and b: "ProcessStep ev x ch k = Inr x'"
    have sx: "Shp (MelFBankTrialOut (Mel x)) = [n0, T, C]" using inv shp by (simp add: keeps_def)
    have k0: "0 \<le> k" using k r by simp
    from ProcessStep_frame [OF b sx k0 k(2) r(2,3)]
    have f: "Input x' = Input x" "MelFBank (Mel x') = MelFBank (Mel x)"
      and kp: "keeps T C (\<lambda>i s c. s = k \<and> c = ch) (MelFBankTrialOut (Mel x)) (MelFBankTrialOut (Mel x'))"
      by simp_all
    from kp have "keeps T C ?W (MelFBankTrialOut (Mel x)) (MelFBankTrialOut (Mel x'))"
      by (rule keeps_weaken) (use k in simp)
    with inv have "keeps T C (\<lambda>i s c. ?W i s c \<or> ?W i s c)
        (MelFBankTrialOut (Mel ap)) (MelFBankTrialOut (Mel x'))"
      by (intro keeps_trans) simp_all
    then have "keeps T C ?W (MelFBankTrialOut (Mel ap)) (MelFBankTrialOut (Mel x'))"
      by (rule keeps_weaken) simp
    then show "?P (k + 1) x'" using inv f by simp
  qed
  then show ?thesis by simp
qed

lemma GaborFilter_branch_frame:
  assumes "(if g then andThen r (\<lambda>(outRaw, out). Inr (upd outRaw out)) else Inr ap) = Inr ap'"
    and "\<And>outRaw out. Mel (upd outRaw out) = Mel ap \<and> Input (upd outRaw out) = Input ap"
  shows "Mel ap' = Mel ap \<and> Input ap' = Input ap"
  using assms by (cases g; cases r) (auto simp add: andThen_def)

lemma FilterTrial_frame:
  assumes "FilterTrial ev ap ch = Inr ap'"
  shows "Mel ap' = Mel ap \<and> Input ap' = Input ap"
proof -
  from andThen_Inr [OF assms [unfolded FilterTrial_def]] obtain a1 where
    g1: "(if GaborOn (Gabor1 ap) then
            andThen (GaborFilter ev ap ch (Gabor1 ap) (Gabor1Filters ap) (Gabor1Raw ap) (Gabor1Out ap))
              (\<lambda>(outRaw, out). Inr (ap\<lparr>Gabor1Raw := outRaw, Gabor1Out := out\<rparr>))
          else Inr ap) = Inr a1"
    and r1: "andThen (if GaborOn (Gabor2 a1) then
            andThen (GaborFilter ev a1 ch (Gabor2 a1) (Gabor2Filters a1) (Gabor2Raw a1) (Gabor2Out a1))
              (\<lambda>(outRaw, out). Inr (a1\<lparr>Gabor2Raw := outRaw, Gabor2Out := out\<rparr>))
          else Inr a1)
         (\<lambda>ap. if GaborOn (Gabor3 ap) then
            andThen (GaborFilter ev ap ch (Gabor3 ap) (Gabor3Filters ap) (Gabor3Raw ap) (Gabor3Out ap))
              (\<lambda>(outRaw, out). Inr (ap\<lparr>Gabor3Raw := outRaw, Gabor3Out := out\<rparr>))
          else Inr ap) = Inr ap'"
    by blast
  from andThen_Inr [OF r1] obtain a2 where
    g2: "(if GaborOn (Gabor2 a1) then
            andThen (GaborFilter ev a1 ch (Gabor2 a1) (Gabor2Filters a1) (Gabor2Raw a1) (Gabor2Out a1))
              (\<lambda>(outRaw, out). Inr (a1\<lparr>Gabor2Raw := outRaw, Gabor2Out := out\<rparr>))
          else Inr a1) = Inr a2"
    and g3: "(if GaborOn (Gabor3 a2) then
            andThen (GaborFilter ev a2 ch (Gabor3 a2) (Gabor3Filters a2) (Gabor3Raw a2) (Gabor3Out a2))
              (\<lambda>(outRaw, out). Inr (a2\<lparr>Gabor3Raw := outRaw, Gabor3Out := out\<rparr>))
          else Inr a2) = Inr ap'"
    by blast
  have 1: "Mel a1 = Mel ap \<and> Input a1 = Input ap"
    by (rule GaborFilter_branch_frame [OF g1]) simp
  have 2: "Mel a2 = Mel a1 \<and> Input a2 = Input a1"
    by (rule GaborFilter_branch_frame [OF g2]) simp
  have 3: "Mel ap' = Mel a2 \<and> Input ap' = Input a2"
    by (rule GaborFilter_branch_frame [OF g3]) simp
  from 1 2 3 show ?thesis by simp
qed

lemma OutputToTable_frame:
  assumes "OutputToTable ev ap ch = Inr ap'"
  shows "ap' = ap"
  using assms by (auto simp add: OutputToTable_def andThen_def split: if_splits sum.splits)

text \<open>
  \<open>CopyStepFromStep\<close> between two different steps of one channel: every filter's cell
  of \<open>toStep\<close> holds what was read at \<open>fmStep\<close>, and no other step or channel changes.
\<close>

lemma CopyStepFromStep_filter_effect:
  assumes b: "CopyStepFromStep_filter toStep fmStep ch i t = Inr t'"
    and shp: "Shp t = [n0, T, C]" and r: "0 \<le> toStep" "toStep < T" "0 \<le> ch" "ch < C"
  shows "keeps T C (\<lambda>j s c. j = i \<and> s = toStep \<and> c = ch) t t'
       \<and> (\<exists>v. Value t [i, fmStep, ch] = Inr v \<and> Value t' [i, toStep, ch] = Inr v)"
proof -
  from andThen_Inr [OF b [unfolded CopyStepFromStep_filter_def]] obtain v where
    rd: "Value t [i, fmStep, ch] = Inr v" and wr: "SetFloat t [i, toStep, ch] v = Inr t'"
    by blast
  from SetFloat_keeps [OF wr shp r] Value_SetFloat_same [OF wr] rd show ?thesis by blast
qed

lemma copy_loop_effect:
  assumes run: "for_loop 0 N (CopyStepFromStep_filter toStep fmStep ch) t = Inr t'"
    and shp: "Shp t = [n0, T, C]"
    and r: "0 \<le> toStep" "toStep < T" "0 \<le> ch" "ch < C"
    and fm: "0 \<le> fmStep" "fmStep < T" "fmStep \<noteq> toStep"
  shows "keeps T C (\<lambda>i s c. s = toStep \<and> c = ch) t t'
       \<and> (\<forall>i. 0 \<le> i \<and> i < N
             \<longrightarrow> (\<exists>v. Value t [i, fmStep, ch] = Inr v \<and> Value t' [i, toStep, ch] = Inr v))"
proof (cases "0 \<le> N")
  case False
  then have "t' = t" using run by (simp add: for_loop_done)
  moreover have "\<not> (0 \<le> i \<and> i < N)" for i using False by simp
  ultimately show ?thesis using keeps_refl [of T C _ t] by blast
next
  case True
  let ?W = "\<lambda>(k :: int) (i :: int) s c. 0 \<le> i \<and> i < k \<and> s = toStep \<and> c = ch"
  let ?P = "\<lambda>k x. keeps T C (?W k) t x
      \<and> (\<forall>i. 0 \<le> i \<and> i < k
            \<longrightarrow> (\<exists>v. Value t [i, fmStep, ch] = Inr v \<and> Value x [i, toStep, ch] = Inr v))"
  have "?P N t'"
  proof (rule for_loop_invariant [where P = ?P, OF run _ True])
    show "?P 0 t" by (auto simp add: keeps_refl)
  next
    fix k x x'
    assume k: "0 \<le> k" "k < N" and inv: "?P k x"
      and b: "CopyStepFromStep_filter toStep fmStep ch k x = Inr x'"
    from inv have kx: "keeps T C (?W k) t x"
      and prev: "\<forall>i. 0 \<le> i \<and> i < k
            \<longrightarrow> (\<exists>v. Value t [i, fmStep, ch] = Inr v \<and> Value x [i, toStep, ch] = Inr v)"
      by simp_all
    have sx: "Shp x = [n0, T, C]" using kx shp by (simp add: keeps_def)
    from CopyStepFromStep_filter_effect [OF b sx r]
    have kp: "keeps T C (\<lambda>j s c. j = k \<and> s = toStep \<and> c = ch) x x'"
      and cp: "\<exists>v. Value x [k, fmStep, ch] = Inr v \<and> Value x' [k, toStep, ch] = Inr v"
      by simp_all
    have src: "Value x [k, fmStep, ch] = Value t [k, fmStep, ch]"
      by (rule keepsD [OF kx fm(1,2) r(3,4)]) (use fm in simp)
    have "keeps T C (\<lambda>i s c. ?W k i s c \<or> (i = k \<and> s = toStep \<and> c = ch)) t x'"
      by (rule keeps_trans [OF kx kp])
    then have k1: "keeps T C (?W (k + 1)) t x'"
      by (rule keeps_weaken) (use k in auto)
    have "\<exists>v. Value t [i, fmStep, ch] = Inr v \<and> Value x' [i, toStep, ch] = Inr v"
      if i: "0 \<le> i \<and> i < k + 1" for i
    proof (cases "i = k")
      case True
      then show ?thesis using cp src by simp
    next
      case False
      then have "0 \<le> i \<and> i < k" using i by simp
      moreover have "Value x' [i, toStep, ch] = Value x [i, toStep, ch]"
        by (rule keepsD [OF kp r]) (use False in simp)
      ultimately show ?thesis using prev by simp
    qed
    with k1 show "?P (k + 1) x'" by blast
  qed
  then have "keeps T C (?W N) t t'"
    and all: "\<forall>i. 0 \<le> i \<and> i < N
             \<longrightarrow> (\<exists>v. Value t [i, fmStep, ch] = Inr v \<and> Value t' [i, toStep, ch] = Inr v)"
    by simp_all
  then have "keeps T C (\<lambda>i s c. s = toStep \<and> c = ch) t t'"
    by (elim keeps_weaken) simp
  with all show ?thesis by simp
qed

lemma CopyStepFromStep_effect:
  assumes run: "CopyStepFromStep mel toStep fmStep ch = Inr mel'"
    and on: "MelOn (MelFBank mel)"
    and shp: "Shp (MelFBankTrialOut mel) = [n0, T, C]"
    and r: "0 \<le> toStep" "toStep < T" "0 \<le> ch" "ch < C"
    and fm: "0 \<le> fmStep" "fmStep < T" "fmStep \<noteq> toStep"
  shows "MelFBank mel' = MelFBank mel
       \<and> keeps T C (\<lambda>i s c. s = toStep \<and> c = ch) (MelFBankTrialOut mel) (MelFBankTrialOut mel')
       \<and> (\<forall>i. 0 \<le> i \<and> i < NFilters (MelFBank mel)
             \<longrightarrow> (\<exists>v. Value (MelFBankTrialOut mel) [i, fmStep, ch] = Inr v
                       \<and> Value (MelFBankTrialOut mel') [i, toStep, ch] = Inr v))"
proof -
  from run on have "andThen (for_loop 0 (NFilters (MelFBank mel)) (CopyStepFromStep_filter toStep fmStep ch)
                   (MelFBankTrialOut mel)) (\<lambda>trialOut.
          let mel = mel\<lparr>MelFBankTrialOut := trialOut\<rparr> in
          if MfccOn (Mfcc mel) then
            andThen (for_loop 0 (NFilters (MelFBank mel)) (CopyStepFromStep_filter toStep fmStep ch)
                       (MfccDctTrialOut mel)) (\<lambda>trialOut.
              Inr (mel\<lparr>MfccDctTrialOut := trialOut\<rparr>))
          else Inr mel) = Inr mel'"
    by (simp add: CopyStepFromStep_def)
  from andThen_Inr [OF this] obtain t where
    lp: "for_loop 0 (NFilters (MelFBank mel)) (CopyStepFromStep_filter toStep fmStep ch)
           (MelFBankTrialOut mel) = Inr t"
    and rest: "(let mel = mel\<lparr>MelFBankTrialOut := t\<rparr> in
          if MfccOn (Mfcc mel) then
            andThen (for_loop 0 (NFilters (MelFBank mel)) (CopyStepFromStep_filter toStep fmStep ch)
                       (MfccDctTrialOut mel)) (\<lambda>trialOut.
              Inr (mel\<lparr>MfccDctTrialOut := trialOut\<rparr>))
          else Inr mel) = Inr mel'"
    by blast
  from rest have "MelFBank mel' = MelFBank mel \<and> MelFBankTrialOut mel' = t"
    by (auto simp add: Let_def andThen_def split: if_splits sum.splits)
  with copy_loop_effect [OF lp shp r fm] show ?thesis by simp
qed

text \<open>
  \<open>WrapBorder\<close> copies forward: step \<open>s\<close> is written before step \<open>srcStStep + s\<close> is,
  so every cell it reads still holds the value of the trial before.
\<close>

lemma WrapBorder_effect:
  assumes run: "WrapBorder ap ch = Inr ap'"
    and on: "MelOn (MelFBank (Mel ap))"
    and B: "0 < BorderSteps (Input ap)"
    and lt: "2 * BorderSteps (Input ap) < TotalSteps (Input ap)"
    and shp: "Shp (MelFBankTrialOut (Mel ap)) = [n0, TotalSteps (Input ap), C]"
    and ch: "0 \<le> ch" "ch < C"
  shows "Input ap' = Input ap \<and> MelFBank (Mel ap') = MelFBank (Mel ap)
       \<and> keeps (TotalSteps (Input ap)) C (\<lambda>i s c. s < 2 * BorderSteps (Input ap) \<and> c = ch)
            (MelFBankTrialOut (Mel ap)) (MelFBankTrialOut (Mel ap'))
       \<and> (\<forall>i s. 0 \<le> i \<and> i < NFilters (MelFBank (Mel ap)) \<and> 0 \<le> s \<and> s < 2 * BorderSteps (Input ap)
             \<longrightarrow> (\<exists>v. Value (MelFBankTrialOut (Mel ap))
                          [i, TotalSteps (Input ap) - 2 * BorderSteps (Input ap) + s, ch] = Inr v
                       \<and> Value (MelFBankTrialOut (Mel ap')) [i, s, ch] = Inr v))"
proof -
  let ?T = "TotalSteps (Input ap)" and ?b = "2 * BorderSteps (Input ap)"
  let ?N = "NFilters (MelFBank (Mel ap))" and ?t0 = "MelFBankTrialOut (Mel ap)"
  let ?P = "\<lambda>k x. Input x = Input ap \<and> MelFBank (Mel x) = MelFBank (Mel ap)
      \<and> keeps ?T C (\<lambda>i s c. s < k \<and> c = ch) ?t0 (MelFBankTrialOut (Mel x))
      \<and> (\<forall>i s. 0 \<le> i \<and> i < ?N \<and> 0 \<le> s \<and> s < k
            \<longrightarrow> (\<exists>v. Value ?t0 [i, ?T - ?b + s, ch] = Inr v
                      \<and> Value (MelFBankTrialOut (Mel x)) [i, s, ch] = Inr v))"
  have run': "for_loop 0 ?b (WrapBorder_step (?T - ?b) ch) ap = Inr ap'"
    using run B by (simp add: WrapBorder_def Let_def)
  have b0: "0 \<le> ?b" using B by simp
  have "?P ?b ap'"
  proof (rule for_loop_invariant [where P = ?P, OF run' _ b0])
    show "?P 0 ap" by (auto simp add: keeps_refl)
  next
    fix k x x'
    assume k: "0 \<le> k" "k < ?b" and inv: "?P k x"
      and b: "WrapBorder_step (?T - ?b) ch k x = Inr x'"
    from inv have cfg: "Input x = Input ap" "MelFBank (Mel x) = MelFBank (Mel ap)"
      and kx: "keeps ?T C (\<lambda>i s c. s < k \<and> c = ch) ?t0 (MelFBankTrialOut (Mel x))"
      and prev: "\<forall>i s. 0 \<le> i \<and> i < ?N \<and> 0 \<le> s \<and> s < k
            \<longrightarrow> (\<exists>v. Value ?t0 [i, ?T - ?b + s, ch] = Inr v
                      \<and> Value (MelFBankTrialOut (Mel x)) [i, s, ch] = Inr v)"
      by simp_all
    from andThen_Inr [OF b [unfolded WrapBorder_step_def]] obtain mel where
      cp: "CopyStepFromStep (Mel x) k (?T - ?b + k) ch = Inr mel" and x': "x' = x\<lparr>Mel := mel\<rparr>"
      by auto
    have onx: "MelOn (MelFBank (Mel x))" using on cfg by simp
    have sx: "Shp (MelFBankTrialOut (Mel x)) = [n0, ?T, C]" using kx shp by (simp add: keeps_def)
    have kT: "k < ?T" using k lt by simp
    have fm: "0 \<le> ?T - ?b + k" "?T - ?b + k < ?T" "?T - ?b + k \<noteq> k" using k lt by simp_all
    from CopyStepFromStep_effect [OF cp onx sx k(1) kT ch fm]
    have fb: "MelFBank mel = MelFBank (Mel x)"
      and kp: "keeps ?T C (\<lambda>i s c. s = k \<and> c = ch) (MelFBankTrialOut (Mel x)) (MelFBankTrialOut mel)"
      and new: "\<forall>i. 0 \<le> i \<and> i < NFilters (MelFBank (Mel x))
             \<longrightarrow> (\<exists>v. Value (MelFBankTrialOut (Mel x)) [i, ?T - ?b + k, ch] = Inr v
                       \<and> Value (MelFBankTrialOut mel) [i, k, ch] = Inr v)"
      by simp_all
    have "keeps ?T C (\<lambda>i s c. (s < k \<and> c = ch) \<or> (s = k \<and> c = ch)) ?t0 (MelFBankTrialOut mel)"
      by (rule keeps_trans [OF kx kp])
    then have k1: "keeps ?T C (\<lambda>i s c. s < k + 1 \<and> c = ch) ?t0 (MelFBankTrialOut mel)"
      by (rule keeps_weaken) auto
    have "\<exists>v. Value ?t0 [i, ?T - ?b + s, ch] = Inr v \<and> Value (MelFBankTrialOut mel) [i, s, ch] = Inr v"
      if a: "0 \<le> i \<and> i < ?N \<and> 0 \<le> s \<and> s < k + 1" for i s
    proof (cases "s = k")
      case True
      have e: "Value (MelFBankTrialOut (Mel x)) [i, ?T - ?b + k, ch] = Value ?t0 [i, ?T - ?b + k, ch]"
        by (rule keepsD [OF kx fm(1,2) ch]) (use k lt in simp)
      from new a cfg obtain v where
        v1: "Value (MelFBankTrialOut (Mel x)) [i, ?T - ?b + k, ch] = Inr v"
        and v2: "Value (MelFBankTrialOut mel) [i, k, ch] = Inr v"
        by auto
      from e v1 have "Value ?t0 [i, ?T - ?b + k, ch] = Inr v" by simp
      with v2 True show ?thesis by blast
    next
      case False
      then have sk: "0 \<le> s \<and> s < k" using a by simp
      have e: "Value (MelFBankTrialOut mel) [i, s, ch] = Value (MelFBankTrialOut (Mel x)) [i, s, ch]"
        by (rule keepsD [OF kp _ _ ch]) (use sk kT False in simp_all)
      from prev a sk obtain v where
        v1: "Value ?t0 [i, ?T - ?b + s, ch] = Inr v"
        and v2: "Value (MelFBankTrialOut (Mel x)) [i, s, ch] = Inr v"
        by auto
      from e v2 have "Value (MelFBankTrialOut mel) [i, s, ch] = Inr v" by simp
      with v1 show ?thesis by blast
    qed
    with k1 cfg fb x' show "?P (k + 1) x'" by simp
  qed
  then show ?thesis by simp
qed

lemma ProcessTrial_next_effect:
  assumes run: "ProcessTrial_next ev startPos (2 * BorderSteps (Input ap)) ch ap = Inr ap'"
    and on: "MelOn (MelFBank (Mel ap))"
    and B: "0 < BorderSteps (Input ap)"
    and lt: "2 * BorderSteps (Input ap) < TotalSteps (Input ap)"
    and shp: "Shp (MelFBankTrialOut (Mel ap)) = [n0, TotalSteps (Input ap), C]"
    and ch: "0 \<le> ch" "ch < C"
  shows "Input ap' = Input ap \<and> MelFBank (Mel ap') = MelFBank (Mel ap)
       \<and> keeps (TotalSteps (Input ap)) C (\<lambda>i s c. c = ch)
            (MelFBankTrialOut (Mel ap)) (MelFBankTrialOut (Mel ap'))
       \<and> (\<forall>i s. 0 \<le> i \<and> i < NFilters (MelFBank (Mel ap)) \<and> 0 \<le> s \<and> s < 2 * BorderSteps (Input ap)
             \<longrightarrow> (\<exists>v. Value (MelFBankTrialOut (Mel ap))
                          [i, TotalSteps (Input ap) - 2 * BorderSteps (Input ap) + s, ch] = Inr v
                       \<and> Value (MelFBankTrialOut (Mel ap')) [i, s, ch] = Inr v))"
proof -
  let ?T = "TotalSteps (Input ap)" and ?b = "2 * BorderSteps (Input ap)"
  let ?N = "NFilters (MelFBank (Mel ap))" and ?t0 = "MelFBankTrialOut (Mel ap)"
  let ?a1 = "ap\<lparr>InputPos := startPos\<rparr>"
  from run have r0: "andThen (WrapBorder ?a1 ch) (\<lambda>ap.
      andThen (for_loop ?b (TotalSteps (Input ap)) (\<lambda>s ap. ProcessStep ev ap ch s) ap) (\<lambda>ap.
      andThen (FilterTrial ev ap ch) (\<lambda>ap. OutputToTable ev ap ch))) = Inr ap'"
    by (simp add: ProcessTrial_next_def Let_def)
  from andThen_Inr [OF r0] obtain a2 where
    w: "WrapBorder ?a1 ch = Inr a2"
    and r1: "andThen (for_loop ?b (TotalSteps (Input a2)) (\<lambda>s ap. ProcessStep ev ap ch s) a2) (\<lambda>ap.
      andThen (FilterTrial ev ap ch) (\<lambda>ap. OutputToTable ev ap ch)) = Inr ap'"
    by blast
  from andThen_Inr [OF r1] obtain a3 where
    st: "for_loop ?b (TotalSteps (Input a2)) (\<lambda>s ap. ProcessStep ev ap ch s) a2 = Inr a3"
    and r2: "andThen (FilterTrial ev a3 ch) (\<lambda>ap. OutputToTable ev ap ch) = Inr ap'"
    by blast
  from andThen_Inr [OF r2] obtain a4 where
    ft: "FilterTrial ev a3 ch = Inr a4" and ot: "OutputToTable ev a4 ch = Inr ap'"
    by blast
  have w': "Input a2 = Input ap" "MelFBank (Mel a2) = MelFBank (Mel ap)"
    and kw: "keeps ?T C (\<lambda>i s c. s < ?b \<and> c = ch) ?t0 (MelFBankTrialOut (Mel a2))"
    and cw: "\<forall>i s. 0 \<le> i \<and> i < ?N \<and> 0 \<le> s \<and> s < ?b
             \<longrightarrow> (\<exists>v. Value ?t0 [i, ?T - ?b + s, ch] = Inr v
                       \<and> Value (MelFBankTrialOut (Mel a2)) [i, s, ch] = Inr v)"
    using WrapBorder_effect [OF w, of n0 C] on B lt shp ch by simp_all
  have s2: "Shp (MelFBankTrialOut (Mel a2)) = [n0, ?T, C]" using kw shp by (simp add: keeps_def)
  have st': "for_loop ?b ?T (\<lambda>s ap. ProcessStep ev ap ch s) a2 = Inr a3" using st w' by simp
  have b0: "0 \<le> ?b" using B by simp
  from steps_frame [OF st' s2 b0 ch]
  have s': "Input a3 = Input a2" "MelFBank (Mel a3) = MelFBank (Mel a2)"
    and ks: "keeps ?T C (\<lambda>i s c. ?b \<le> s \<and> c = ch)
               (MelFBankTrialOut (Mel a2)) (MelFBankTrialOut (Mel a3))"
    by simp_all
  have f': "Mel a4 = Mel a3" "Input a4 = Input a3" using FilterTrial_frame [OF ft] by simp_all
  have o': "ap' = a4" using OutputToTable_frame [OF ot] .
  have fin: "MelFBankTrialOut (Mel ap') = MelFBankTrialOut (Mel a3)" using f' o' by simp
  have "keeps ?T C (\<lambda>i s c. (s < ?b \<and> c = ch) \<or> (?b \<le> s \<and> c = ch)) ?t0 (MelFBankTrialOut (Mel a3))"
    by (rule keeps_trans [OF kw ks])
  then have kk: "keeps ?T C (\<lambda>i s c. c = ch) ?t0 (MelFBankTrialOut (Mel a3))"
    by (rule keeps_weaken) auto
  have "\<exists>v. Value ?t0 [i, ?T - ?b + s, ch] = Inr v \<and> Value (MelFBankTrialOut (Mel a3)) [i, s, ch] = Inr v"
    if a: "0 \<le> i \<and> i < ?N \<and> 0 \<le> s \<and> s < ?b" for i s
  proof -
    have e: "Value (MelFBankTrialOut (Mel a3)) [i, s, ch] = Value (MelFBankTrialOut (Mel a2)) [i, s, ch]"
      by (rule keepsD [OF ks _ _ ch]) (use a lt in simp_all)
    from cw a obtain v where
      v1: "Value ?t0 [i, ?T - ?b + s, ch] = Inr v"
      and v2: "Value (MelFBankTrialOut (Mel a2)) [i, s, ch] = Inr v"
      by auto
    from e v2 have "Value (MelFBankTrialOut (Mel a3)) [i, s, ch] = Inr v" by simp
    with v1 show ?thesis by blast
  qed
  with kk fin w' s' f' o' show ?thesis by simp
qed

text \<open>
  Claim C2.  On an analyzer that needs no initialization, in the middle of a sound
  (\<open>InputPos\<close> is not 0) with at least one step of input left, the mel filter bank on, a
  border of at least one step that leaves room for a trial (\<open>2 * BorderSteps\<close> below
  \<open>TotalSteps\<close>) and the trial tensor in the shape \<open>InitOutMatrix\<close> gives it, a call of
  \<open>ProcessTrial\<close> that returns has returned true, and for every mel filter, every
  channel and every \<open>s\<close> below \<open>2 * BorderSteps\<close> the cell of step \<open>s\<close> reads what the cell
  of step \<open>TotalSteps - 2 * BorderSteps + s\<close> read before the call: the steps below
  \<open>2 * BorderSteps\<close> are copied from the tail of the trial before, for each channel before
  its new steps are computed, and the steps computed afresh, \<open>2 * BorderSteps\<close> to
  \<open>TotalSteps - 1\<close>, write none of them.
\<close>

theorem ProcessTrial_border_copy:
  assumes run: "ProcessTrial ev ap = Inr (r, ap')"
    and ninit: "\<not> NeedsInit ap"
    and left: "InputStepsLeft ap = Inr n" "1 \<le> n"
    and pos: "InputPos ap \<noteq> 0"
    and on: "MelOn (MelFBank (Mel ap))"
    and B: "0 < BorderSteps (Input ap)"
    and lt: "2 * BorderSteps (Input ap) < TotalSteps (Input ap)"
    and shp: "Shp (MelFBankTrialOut (Mel ap)) = [n0, TotalSteps (Input ap), Channels (Input ap)]"
  shows "r = True
       \<and> (\<forall>i s c. 0 \<le> i \<and> i < NFilters (MelFBank (Mel ap))
                 \<and> 0 \<le> s \<and> s < 2 * BorderSteps (Input ap)
                 \<and> 0 \<le> c \<and> c < Channels (Input ap)
             \<longrightarrow> (\<exists>v. Value (MelFBankTrialOut (Mel ap))
                          [i, TotalSteps (Input ap) - 2 * BorderSteps (Input ap) + s, c] = Inr v
                       \<and> Value (MelFBankTrialOut (Mel ap')) [i, s, c] = Inr v))"
proof -
  let ?T = "TotalSteps (Input ap)" and ?b = "2 * BorderSteps (Input ap)"
  let ?N = "NFilters (MelFBank (Mel ap))" and ?t0 = "MelFBankTrialOut (Mel ap)"
  let ?C = "Channels (Input ap)"
  let ?a1 = "ap\<lparr>DataRows := DataRows ap + 1\<rparr>"
  let ?a2 = "?a1\<lparr>TrialStartPos := InputPos ap - StepSamples (Input ap) * BorderSteps (Input ap),
                  TrialEndPos := InputPos ap - StepSamples (Input ap) * BorderSteps (Input ap)
                                   + TrialSamples (Input ap)\<rparr>"
  have l1: "InputStepsLeft ?a1 = Inr n" using left by (simp add: InputStepsLeft_def)
  from run ninit l1 left(2) pos
  have r0: "andThen (for_loop 0 ?C (ProcessTrial_next ev (InputPos ap) ?b) ?a2) (\<lambda>ap. Inr (True, ap))
              = Inr (r, ap')"
    by (simp add: ProcessTrial_def andThen_def Let_def)
  from andThen_Inr [OF r0] obtain a3 where
    lp: "for_loop 0 ?C (ProcessTrial_next ev (InputPos ap) ?b) ?a2 = Inr a3"
    and res: "r = True" "ap' = a3"
    by auto
  let ?P = "\<lambda>k x. Input x = Input ap \<and> MelFBank (Mel x) = MelFBank (Mel ap)
      \<and> keeps ?T ?C (\<lambda>i s c. c < k) ?t0 (MelFBankTrialOut (Mel x))
      \<and> (\<forall>i s c. 0 \<le> i \<and> i < ?N \<and> 0 \<le> s \<and> s < ?b \<and> 0 \<le> c \<and> c < k
            \<longrightarrow> (\<exists>v. Value ?t0 [i, ?T - ?b + s, c] = Inr v
                      \<and> Value (MelFBankTrialOut (Mel x)) [i, s, c] = Inr v))"
  show ?thesis
  proof (cases "0 \<le> ?C")
    case False
    then show ?thesis using res by auto
  next
    case True
    have "?P ?C a3"
    proof (rule for_loop_invariant [where P = ?P, OF lp _ True])
      show "?P 0 ?a2" by (auto simp add: keeps_refl)
    next
      fix k x x'
      assume k: "0 \<le> k" "k < ?C" and inv: "?P k x"
        and b: "ProcessTrial_next ev (InputPos ap) ?b k x = Inr x'"
      from inv have cfg: "Input x = Input ap" "MelFBank (Mel x) = MelFBank (Mel ap)"
        and kx: "keeps ?T ?C (\<lambda>i s c. c < k) ?t0 (MelFBankTrialOut (Mel x))"
        and prev: "\<forall>i s c. 0 \<le> i \<and> i < ?N \<and> 0 \<le> s \<and> s < ?b \<and> 0 \<le> c \<and> c < k
            \<longrightarrow> (\<exists>v. Value ?t0 [i, ?T - ?b + s, c] = Inr v
                      \<and> Value (MelFBankTrialOut (Mel x)) [i, s, c] = Inr v)"
        by simp_all
      have b': "ProcessTrial_next ev (InputPos ap) (2 * BorderSteps (Input x)) k x = Inr x'"
        using b cfg by simp
      have onx: "MelOn (MelFBank (Mel x))" and Bx: "0 < BorderSteps (Input x)"
        and ltx: "2 * BorderSteps (Input x) < TotalSteps (Input x)"
        using on B lt cfg by simp_all
      have sx: "Shp (MelFBankTrialOut (Mel x)) = [n0, TotalSteps (Input x), ?C]"
        using kx shp cfg by (simp add: keeps_def)
      from ProcessTrial_next_effect [OF b' onx Bx ltx sx k]
      have cfg': "Input x' = Input ap" "MelFBank (Mel x') = MelFBank (Mel ap)"
        and kp: "keeps ?T ?C (\<lambda>i s c. c = k) (MelFBankTrialOut (Mel x)) (MelFBankTrialOut (Mel x'))"
        and new: "\<forall>i s. 0 \<le> i \<and> i < ?N \<and> 0 \<le> s \<and> s < ?b
             \<longrightarrow> (\<exists>v. Value (MelFBankTrialOut (Mel x)) [i, ?T - ?b + s, k] = Inr v
                       \<and> Value (MelFBankTrialOut (Mel x')) [i, s, k] = Inr v)"
        using cfg by simp_all
      have "keeps ?T ?C (\<lambda>i s c. c < k \<or> c = k) ?t0 (MelFBankTrialOut (Mel x'))"
        by (rule keeps_trans [OF kx kp])
      then have k1: "keeps ?T ?C (\<lambda>i s c. c < k + 1) ?t0 (MelFBankTrialOut (Mel x'))"
        by (rule keeps_weaken) auto
      have "\<exists>v. Value ?t0 [i, ?T - ?b + s, c] = Inr v \<and> Value (MelFBankTrialOut (Mel x')) [i, s, c] = Inr v"
        if a: "0 \<le> i \<and> i < ?N \<and> 0 \<le> s \<and> s < ?b \<and> 0 \<le> c \<and> c < k + 1" for i s c
      proof (cases "c = k")
        case True
        have e: "Value (MelFBankTrialOut (Mel x)) [i, ?T - ?b + s, k] = Value ?t0 [i, ?T - ?b + s, k]"
          by (rule keepsD [OF kx _ _ k]) (use a lt in simp_all)
        have "0 \<le> i \<and> i < ?N \<and> 0 \<le> s \<and> s < ?b" using a by simp
        with new obtain v where
          v1: "Value (MelFBankTrialOut (Mel x)) [i, ?T - ?b + s, k] = Inr v"
          and v2: "Value (MelFBankTrialOut (Mel x')) [i, s, k] = Inr v"
          by blast
        from e v1 have "Value ?t0 [i, ?T - ?b + s, k] = Inr v" by simp
        with v2 True show ?thesis by blast
      next
        case False
        then have ck: "0 \<le> c \<and> c < k" using a by simp
        have cC: "c < ?C" using ck k by simp
        have e: "Value (MelFBankTrialOut (Mel x')) [i, s, c] = Value (MelFBankTrialOut (Mel x)) [i, s, c]"
          by (rule keepsD [OF kp _ _ _ cC]) (use a lt False in simp_all)
        have "0 \<le> i \<and> i < ?N \<and> 0 \<le> s \<and> s < ?b \<and> 0 \<le> c \<and> c < k"
          using a ck by simp
        with prev obtain v where
          v1: "Value ?t0 [i, ?T - ?b + s, c] = Inr v"
          and v2: "Value (MelFBankTrialOut (Mel x)) [i, s, c] = Inr v"
          by blast
        from e v2 have "Value (MelFBankTrialOut (Mel x')) [i, s, c] = Inr v" by simp
        with v1 show ?thesis by blast
      qed
      with k1 cfg' show "?P (k + 1) x'" by simp
    qed
    then show ?thesis using res by simp
  qed
qed

theorem ProcessTrial_border_copy_witness:
  "ProcessTrial
     \<lparr>Initialize = Inr, dct = (\<lambda>xs. xs), DftPowerOut = (\<lambda>ap. [0, 1]), Inhib = (\<lambda>xs. xs),
      MelOutputToTable = (\<lambda>ap ch fmtOnly. Inr ())\<rparr>
     (AuditoryProc_zero\<lparr>
        Mel := Mel_zero\<lparr>MelPtsBin := [0, 1, 2],
                 MelFilters := \<lparr>Shp = [1, 3], Values = [0, 1, 0]\<rparr>,
                 MelNFiltersEff := 3,
                 MelFBank := MelFBank_zero\<lparr>MelOn := True, NFilters := 1, LogMin := - 10,
                   FBankRenorm := \<lparr>RenormOn = True, RenormMin = - 5, RenormMax = 9,
                                   RenormScale = 1 / 14\<rparr>\<rparr>,
                 MelFBankOut := [0],
                 MelFBankTrialOut := \<lparr>Shp = [1, 3, 1], Values = [1 / 4, 1 / 2, 3 / 4]\<rparr>,
                 DftSize := 2\<rparr>,
        Input := Input_zero\<lparr>WinSamples := 2, StepSamples := 1, TrialSamples := 1, TrialSteps := 1,
                   TotalSteps := 3, BorderSteps := 1, Channels := 1\<rparr>,
        SoundFull := \<lparr>Shp = [10], Values = [0, 0, 0, 0, 0, 0, 0, 0, 0, 0]\<rparr>,
        WindowIn := [0, 0],
        InputPos := 3\<rparr>)
   = Inr (True,
      AuditoryProc_zero\<lparr>
        Mel := Mel_zero\<lparr>MelPtsBin := [0, 1, 2],
                 MelFilters := \<lparr>Shp = [1, 3], Values = [0, 1, 0]\<rparr>,
                 MelNFiltersEff := 3,
                 MelFBank := MelFBank_zero\<lparr>MelOn := True, NFilters := 1, LogMin := - 10,
                   FBankRenorm := \<lparr>RenormOn = True, RenormMin = - 5, RenormMax = 9,
                                   RenormScale = 1 / 14\<rparr>\<rparr>,
                 MelFBankOut := [5 / 14],
                 MelFBankTrialOut := \<lparr>Shp = [1, 3, 1], Values = [1 / 2, 3 / 4, 5 / 14]\<rparr>,
                 DftSize := 2\<rparr>,
        DataRows := 1,
        Input := Input_zero\<lparr>WinSamples := 2, StepSamples := 1, TrialSamples := 1, TrialSteps := 1,
                   TotalSteps := 3, BorderSteps := 1, Channels := 1\<rparr>,
        InputPos := 4, TrialStartPos := 2, TrialEndPos := 3,
        SoundFull := \<lparr>Shp = [10], Values = [0, 0, 0, 0, 0, 0, 0, 0, 0, 0]\<rparr>,
        WindowIn := [0, 0]\<rparr>)
   \<and> (\<exists>v. Value \<lparr>Shp = [1, 3, 1], Values = [1 / 4, 1 / 2, 3 / 4]\<rparr> [0, 1, 0] = Inr v
          \<and> Value \<lparr>Shp = [1, 3, 1], Values = [1 / 2, 3 / 4, 5 / 14]\<rparr> [0, 0, 0] = Inr v)
   \<and> (\<exists>v. Value \<lparr>Shp = [1, 3, 1], Values = [1 / 4, 1 / 2, 3 / 4]\<rparr> [0, 2, 0] = Inr v
          \<and> Value \<lparr>Shp = [1, 3, 1], Values = [1 / 2, 3 / 4, 5 / 14]\<rparr> [0, 1, 0] = Inr v)"
  (is "ProcessTrial ?ev ?ap = Inr (True, ?ap') \<and> ?c0 \<and> ?c1")
proof -
  have run: "ProcessTrial ?ev ?ap = Inr (True, ?ap')"
    by (simp add: ProcessTrial_def ProcessTrial_next_def NeedsInit_def InputStepsLeft_def
        WrapBorder_def WrapBorder_step_def CopyStepFromStep_def CopyStepFromStep_filter_def
        ProcessStep_def SoundToWindow_def FilterWindow_def MelFilterDft_def MelFilterDft_filter_def
        MelFilterDft_sum_def MelFilterDft_val_def FilterTrial_def OutputToTable_def
        for_loop.simps andThen_def slice_get_def slice_set_def slice_range_def copy_slice_def
        quo_def tdiv_def SetFloat_def Value_def
        AuditoryProc_zero_def Mel_zero_def MelFBank_zero_def Input_zero_def Gabor_zero_def
        tensor_zero_def Let_def)
  have h: "\<not> NeedsInit ?ap" "InputStepsLeft ?ap = Inr 7" "(1 :: int) \<le> 7" "InputPos ?ap \<noteq> 0"
    "MelOn (MelFBank (Mel ?ap))" "0 < BorderSteps (Input ?ap)"
    "2 * BorderSteps (Input ?ap) < TotalSteps (Input ?ap)"
    "Shp (MelFBankTrialOut (Mel ?ap)) = [1, TotalSteps (Input ?ap), Channels (Input ?ap)]"
    by (simp_all add: NeedsInit_def InputStepsLeft_def quo_def tdiv_def
        AuditoryProc_zero_def Mel_zero_def MelFBank_zero_def Input_zero_def)
  from ProcessTrial_border_copy [OF run h]
  have all: "\<forall>i s c. 0 \<le> i \<and> i < NFilters (MelFBank (Mel ?ap))
                 \<and> 0 \<le> s \<and> s < 2 * BorderSteps (Input ?ap)
                 \<and> 0 \<le> c \<and> c < Channels (Input ?ap)
             \<longrightarrow> (\<exists>v. Value (MelFBankTrialOut (Mel ?ap))
                          [i, TotalSteps (Input ?ap) - 2 * BorderSteps (Input ?ap) + s, c] = Inr v
                       \<and> Value (MelFBankTrialOut (Mel ?ap')) [i, s, c] = Inr v)"
    by blast
  have c0: ?c0
    using all [rule_format, of 0 0 0]
    by (simp add: AuditoryProc_zero_def Mel_zero_def MelFBank_zero_def Input_zero_def)
  have c1: ?c1
    using all [rule_format, of 0 1 0]
    by (simp add: AuditoryProc_zero_def Mel_zero_def MelFBank_zero_def Input_zero_def)
  from run c0 c1 show ?thesis by blast
qed

section \<open>The round trip of the mel scale\<close>

text \<open>
  Claim C7, as the source has it.  In exact arithmetic \<open>MelToFreq\<close> undoes \<open>FreqToMel\<close>
  at every frequency above -700 Hz, so at every frequency from 1 to 20000.
\<close>

theorem MelToFreq_FreqToMel_round_trip:
  assumes "- 700 < f"
  shows "MelToFreq (FreqToMel f) = f"
proof -
  have "0 < 1 + f / 700" using assms by simp
  then show ?thesis by (simp add: MelToFreq_def FreqToMel_def)
qed

theorem MelToFreq_FreqToMel_round_trip_witness:
  "MelToFreq (FreqToMel 440) = 440"
  using MelToFreq_FreqToMel_round_trip [of 440] by simp

text \<open>The exponent of a value in the \<open>float32\<close> range is the exponent of its binade.\<close>

lemma float32_exponent_from_eq:
  assumes "e0 \<le> e" and "e \<le> 127" and "2 powi e \<le> a" and "a < 2 powi (e + 1)"
  shows "float32_exponent_from a e0 = e"
  using assms
proof (induction "nat (e - e0)" arbitrary: e0)
  case 0
  then have "e0 = e" by simp
  then show ?case using 0 by (subst float32_exponent_from.simps) simp
next
  case (Suc m)
  then have lt: "e0 < e" by simp
  have "(2 :: real) powi (e0 + 1) \<le> 2 powi e"
    using lt by (intro power_int_increasing) simp_all
  then have le: "2 powi (e0 + 1) \<le> a" using Suc.prems by simp
  have "float32_exponent_from a e0 = float32_exponent_from a (e0 + 1)"
    using lt Suc.prems le by (subst float32_exponent_from.simps) simp
  also have "\<dots> = e"
    using Suc.hyps(1) [of "e0 + 1"] Suc.hyps(2) Suc.prems lt by simp
  finally show ?case .
qed

lemma float32_exponent_eq:
  assumes "- 126 \<le> e" and "e \<le> 127" and "2 powi e \<le> \<bar>x\<bar>" and "\<bar>x\<bar> < 2 powi (e + 1)"
  shows "float32_exponent x = e"
  unfolding float32_exponent_def by (rule float32_exponent_from_eq [OF assms])

lemma float32_1_700: "float32 (1 / 700) = 12271335 / 2 ^ 33"
proof -
  have "float32_exponent (1 / 700) = - 10"
    by (rule float32_exponent_eq) (simp_all add: power_int_minus)
  then show ?thesis
    by (simp add: float32_def round_even_def Let_def power_int_minus)
qed

lemma float32_1_plus_1_700: "float32 (1 + 12271335 / 2 ^ 33) = 8400592 / 2 ^ 23"
proof -
  have "float32_exponent (1 + 12271335 / 2 ^ 33) = 0"
    by (rule float32_exponent_eq) simp_all
  then show ?thesis
    by (simp add: float32_def round_even_def Let_def power_int_minus)
qed

lemma float32_next_700: "float32 ((1 + 1 / 2 ^ 20) / 700) = 12271347 / 2 ^ 33"
proof -
  have "float32_exponent ((1 + 1 / 2 ^ 20) / 700) = - 10"
    by (rule float32_exponent_eq) (simp_all add: power_int_minus)
  then show ?thesis
    by (simp add: float32_def round_even_def Let_def power_int_minus)
qed

lemma float32_1_plus_next_700: "float32 (1 + 12271347 / 2 ^ 33) = 8400592 / 2 ^ 23"
proof -
  have "float32_exponent (1 + 12271347 / 2 ^ 33) = 0"
    by (rule float32_exponent_eq) simp_all
  then show ?thesis
    by (simp add: float32_def round_even_def Let_def power_int_minus)
qed

text \<open>
  In \<open>float32\<close> the sum \<open>1.0+freq/700.0\<close> keeps 24 bits, of which a frequency near 1 Hz
  gets the last 14: 1 and the \<open>float32\<close> \<open>1 + 2 ^ -20\<close> have the same sum, and so the
  same mel value, whatever the logarithm of the library is.
\<close>

lemma FreqToMel_float32_collision:
  "FreqToMel_float32 log32 (1 + 1 / 2 ^ 20) = FreqToMel_float32 log32 1"
  by (simp only: FreqToMel_float32_def float32_1_700 float32_1_plus_1_700 float32_next_700 float32_1_plus_next_700)

text \<open>
  So the round trip of one of the two is further from it than \<open>float32_epsilon\<close>, taken
  as an absolute or as a relative bound, whatever the logarithm and the exponential of
  the library are.
\<close>

theorem MelToFreq_FreqToMel_float32_not_within_epsilon:
  "\<forall>log32 exp32.
     float32_epsilon * 1 < \<bar>MelToFreq_float32 exp32 (FreqToMel_float32 log32 1) - 1\<bar>
     \<or> float32_epsilon * (1 + 1 / 2 ^ 20)
         < \<bar>MelToFreq_float32 exp32 (FreqToMel_float32 log32 (1 + 1 / 2 ^ 20)) - (1 + 1 / 2 ^ 20)\<bar>"
proof (intro allI)
  fix log32 exp32 :: "real \<Rightarrow> real"
  define y where "y = MelToFreq_float32 exp32 (FreqToMel_float32 log32 1)"
  have e: "MelToFreq_float32 exp32 (FreqToMel_float32 log32 (1 + 1 / 2 ^ 20)) = y"
    by (simp only: y_def FreqToMel_float32_collision)
  have "1 / 2 ^ 23 < \<bar>y - 1\<bar> \<or> 1 / 2 ^ 23 * (1 + 1 / 2 ^ 20) < \<bar>y - (1 + 1 / 2 ^ 20)\<bar>"
    by (simp add: abs_if) linarith
  then show "float32_epsilon * 1 < \<bar>MelToFreq_float32 exp32 (FreqToMel_float32 log32 1) - 1\<bar>
     \<or> float32_epsilon * (1 + 1 / 2 ^ 20)
         < \<bar>MelToFreq_float32 exp32 (FreqToMel_float32 log32 (1 + 1 / 2 ^ 20)) - (1 + 1 / 2 ^ 20)\<bar>"
    unfolding e float32_epsilon_def y_def [symmetric] by simp
qed

end
